theory Spec2Isabelle
  imports Complex_Main
begin

section \<open>JavaScript values\<close>

text \<open>
  The program is JavaScript: values are dynamically typed, and the plans the executor
  runs are whatever the language model's JSON decodes to. The model therefore works on
  a small universe of JavaScript values.

  \<^item> A string is its sequence of UTF-16 code units (what \<open>includes\<close>, \<open>match\<close> and
    \<open>length\<close> of the source work on); a literal of the source is written as the list
    of its code units, ASCII text through \<open>ustr\<close>.
  \<^item> A number is a finite value, \<open>NaN\<close>, or an infinity. Finite values are rationals
    and arithmetic on them is exact: this agrees with IEEE-754 doubles whenever the
    operands and the result are integers below \<open>2^53\<close>, which covers every concrete
    computation below. Negative zero is not distinguished from zero.
  \<^item> An object is the association list of its own properties, keyed by the (ASCII)
    property names of the source; the first binding of a key is its value.
\<close>

type_synonym jsstring = "nat list"

definition ustr :: "string \<Rightarrow> jsstring" where
  "ustr s = map of_char s"

datatype jsnum = Fin rat | NaN | PosInf | NegInf

datatype jsval =
    JUndefined
  | JNull
  | JBool bool
  | JNum jsnum
  | JStr jsstring
  | JArr "jsval list"
  | JObj "(string \<times> jsval) list"

text \<open>
  Thrown values. Every \<open>throw\<close> of the repository throws an \<open>Error\<close> object with a
  message, and the language's own failures (reading a property of \<open>undefined\<close> or
  \<open>null\<close>, calling something that is not a function, iterating a non-iterable) are
  \<open>TypeError\<close>s. A function that can throw returns \<open>error + 'a\<close>, \<open>Inl\<close> the exception.
\<close>

datatype error = TypeError | Error jsstring

text \<open>
  Built-ins of the JavaScript engine that the source calls and that are not code of the
  repository. They are a parameter of the model: the theorems that quantify over \<open>rt\<close>
  hold for every engine. \<open>valueToNumber\<close> and \<open>valueToString\<close> are the engine's
  \<open>ToNumber\<close> and \<open>ToString\<close> on the values where they are not immediate (strings and
  objects for the first, everything but strings for the second) and do not throw
  (see \<open>toPrimitiveThrows\<close> below).
\<close>

record runtime =
  toLowerCase :: "jsstring \<Rightarrow> jsstring"
  parseInt :: "jsstring \<Rightarrow> jsnum"
  valueToNumber :: "jsval \<Rightarrow> jsnum"
  valueToString :: "jsval \<Rightarrow> jsstring"

subsection \<open>Operators\<close>

fun truthy :: "jsval \<Rightarrow> bool" where
  "truthy JUndefined = False"
| "truthy JNull = False"
| "truthy (JBool b) = b"
| "truthy (JNum n) = (n \<noteq> Fin 0 \<and> n \<noteq> NaN)"
| "truthy (JStr s) = (s \<noteq> [])"
| "truthy (JArr xs) = True"
| "truthy (JObj kvs) = True"

text \<open>\<open>a || b\<close>\<close>

definition jsOr :: "jsval \<Rightarrow> jsval \<Rightarrow> jsval" where
  "jsOr a b = (if truthy a then a else b)"

fun typeof :: "jsval \<Rightarrow> string" where
  "typeof JUndefined = ''undefined''"
| "typeof JNull = ''object''"
| "typeof (JBool b) = ''boolean''"
| "typeof (JNum n) = ''number''"
| "typeof (JStr s) = ''string''"
| "typeof (JArr xs) = ''object''"
| "typeof (JObj kvs) = ''object''"

text \<open>
  \<open>v.key\<close> for the property names the source reads (none of them is a property of a
  built-in prototype): reading a property of \<open>undefined\<close> or \<open>null\<close> throws; a missing
  property is \<open>undefined\<close>; arrays and strings have a \<open>length\<close>.
\<close>

fun getProp :: "jsval \<Rightarrow> string \<Rightarrow> error + jsval" where
  "getProp JUndefined k = Inl TypeError"
| "getProp JNull k = Inl TypeError"
| "getProp (JObj kvs) k = Inr (case map_of kvs k of None \<Rightarrow> JUndefined | Some v \<Rightarrow> v)"
| "getProp (JArr xs) k =
     Inr (if k = ''length'' then JNum (Fin (of_nat (length xs))) else JUndefined)"
| "getProp (JStr s) k =
     Inr (if k = ''length'' then JNum (Fin (of_nat (length s))) else JUndefined)"
| "getProp (JBool b) k = Inr JUndefined"
| "getProp (JNum n) k = Inr JUndefined"

text \<open>\<open>v?.key\<close>\<close>

definition getPropOpt :: "jsval \<Rightarrow> string \<Rightarrow> jsval" where
  "getPropOpt v k = (case getProp v k of Inl e \<Rightarrow> JUndefined | Inr r \<Rightarrow> r)"

text \<open>\<open>ToNumber\<close>, unary minus, \<open>+\<close> on numbers, and the comparisons (false on \<open>NaN\<close>).\<close>

definition ToNumber :: "runtime \<Rightarrow> jsval \<Rightarrow> jsnum" where
  "ToNumber rt v =
     (case v of
        JUndefined \<Rightarrow> NaN
      | JNull \<Rightarrow> Fin 0
      | JBool b \<Rightarrow> Fin (if b then 1 else 0)
      | JNum n \<Rightarrow> n
      | _ \<Rightarrow> valueToNumber rt v)"

definition ToString :: "runtime \<Rightarrow> jsval \<Rightarrow> jsstring" where
  "ToString rt v = (case v of JStr s \<Rightarrow> s | _ \<Rightarrow> valueToString rt v)"

text \<open>
  The values on which \<open>ToString\<close> and \<open>ToNumber\<close> throw. Both convert an object
  through its methods \<open>toString\<close> and \<open>valueOf\<close>. No property of a value of the model
  is a function, as in decoded JSON: an object with an own property \<open>toString\<close> hides
  the inherited method behind something that cannot be called, the inherited
  \<open>valueOf\<close> returns the object itself (and an own \<open>valueOf\<close> cannot be called
  either), so the conversion ends in a \<open>TypeError\<close>. Without an own \<open>toString\<close> the
  inherited one answers. An array is joined, which converts every element that is not
  \<open>undefined\<close> or \<open>null\<close>. A template literal \<open>`${v}`\<close>, also one that is only
  logged, applies \<open>ToString\<close> to \<open>v\<close>.
\<close>

fun toPrimitiveThrows :: "jsval \<Rightarrow> bool" where
  "toPrimitiveThrows (JObj kvs) = (map_of kvs ''toString'' \<noteq> None)"
| "toPrimitiveThrows (JArr xs) = list_ex toPrimitiveThrows xs"
| "toPrimitiveThrows v = False"

fun numNeg :: "jsnum \<Rightarrow> jsnum" where
  "numNeg (Fin r) = Fin (- r)"
| "numNeg NaN = NaN"
| "numNeg PosInf = NegInf"
| "numNeg NegInf = PosInf"

fun numAdd :: "jsnum \<Rightarrow> jsnum \<Rightarrow> jsnum" where
  "numAdd (Fin a) (Fin b) = Fin (a + b)"
| "numAdd NaN b = NaN"
| "numAdd a NaN = NaN"
| "numAdd PosInf NegInf = NaN"
| "numAdd NegInf PosInf = NaN"
| "numAdd PosInf b = PosInf"
| "numAdd a PosInf = PosInf"
| "numAdd NegInf b = NegInf"
| "numAdd a NegInf = NegInf"

fun numLess :: "jsnum \<Rightarrow> jsnum \<Rightarrow> bool" where
  "numLess (Fin a) (Fin b) = (a < b)"
| "numLess NaN b = False"
| "numLess a NaN = False"
| "numLess NegInf NegInf = False"
| "numLess NegInf b = True"
| "numLess PosInf b = False"
| "numLess a PosInf = True"
| "numLess a NegInf = False"

text \<open>\<open>a > b\<close> and \<open>a >= b\<close> on numbers.\<close>

definition numGreater :: "jsnum \<Rightarrow> jsnum \<Rightarrow> bool" where
  "numGreater a b = numLess b a"

definition numGreaterEq :: "jsnum \<Rightarrow> jsnum \<Rightarrow> bool" where
  "numGreaterEq a b = (a \<noteq> NaN \<and> b \<noteq> NaN \<and> \<not> numLess a b)"

subsection \<open>Strings\<close>

fun startsWith :: "jsstring \<Rightarrow> jsstring \<Rightarrow> bool" where
  "startsWith s [] = True"
| "startsWith [] (k # ks) = False"
| "startsWith (c # cs) (k # ks) = (c = k \<and> startsWith cs ks)"

text \<open>\<open>s.includes(k)\<close>: \<open>k\<close> occurs in \<open>s\<close> as a contiguous run of code units.\<close>

fun js_includes :: "jsstring \<Rightarrow> jsstring \<Rightarrow> bool" where
  "js_includes [] k = (k = [])"
| "js_includes (c # cs) k = (startsWith (c # cs) k \<or> js_includes cs k)"

definition isDigit :: "nat \<Rightarrow> bool" where
  "isDigit c = (48 \<le> c \<and> c \<le> 57)"

text \<open>
  \<open>s.match(/\d+/g)\<close>: every maximal run of the digits \<open>0\<close> to \<open>9\<close>, left to right, or
  \<open>null\<close> when there is none. \<open>digitRuns s cur\<close> scans \<open>s\<close> with the run \<open>cur\<close> open.
\<close>

fun digitRuns :: "jsstring \<Rightarrow> jsstring \<Rightarrow> jsstring list" where
  "digitRuns [] cur = (if cur = [] then [] else [cur])"
| "digitRuns (c # cs) cur =
     (if isDigit c then digitRuns cs (cur @ [c])
      else if cur = [] then digitRuns cs []
      else cur # digitRuns cs [])"

definition matchDigits :: "jsstring \<Rightarrow> jsstring list option" where
  "matchDigits s = (case digitRuns s [] of [] \<Rightarrow> None | r # rs \<Rightarrow> Some (r # rs))"

section \<open>LLMInterface (src/src/ai/llmInterface.js)\<close>

subsection \<open>parseDirection\<close>

text \<open>
  \<open>direction.toLowerCase()\<close> exists on strings only. The keywords are, in the order of
  the source: U+524D, forward, U+307E U+3063 U+3059 U+3050; U+5F8C, back; U+53F3, right;
  U+5DE6, left; U+4E0A, up; U+4E0B, down. \<open>minus\<close> is \<open>-distance\<close>, which the three
  branches that use it evaluate: it converts the distance to a number, or throws.
\<close>

definition vecObj :: "jsval \<Rightarrow> jsval \<Rightarrow> jsval \<Rightarrow> jsval" where
  "vecObj a b c = JObj [(''x'', a), (''y'', b), (''z'', c)]"

definition parseDirection :: "runtime \<Rightarrow> jsval \<Rightarrow> jsval \<Rightarrow> error + jsval" where
  "parseDirection rt direction distance =
     (case direction of
        JStr d \<Rightarrow>
          (let dir = toLowerCase rt d;
               zero = JNum (Fin 0);
               minus = (if toPrimitiveThrows distance then Inl TypeError
                        else Inr (JNum (numNeg (ToNumber rt distance))))
           in if js_includes dir [21069] \<or> js_includes dir (ustr ''forward'')
                 \<or> js_includes dir [12414, 12387, 12377, 12368]
              then Inr (vecObj distance zero zero)
              else if js_includes dir [24460] \<or> js_includes dir (ustr ''back'')
              then map_sum id (\<lambda>m. vecObj m zero zero) minus
              else if js_includes dir [21491] \<or> js_includes dir (ustr ''right'')
              then Inr (vecObj zero zero distance)
              else if js_includes dir [24038] \<or> js_includes dir (ustr ''left'')
              then map_sum id (\<lambda>m. vecObj zero zero m) minus
              else if js_includes dir [19978] \<or> js_includes dir (ustr ''up'')
              then Inr (vecObj zero distance zero)
              else if js_includes dir [19979] \<or> js_includes dir (ustr ''down'')
              then map_sum id (\<lambda>m. vecObj zero m zero) minus
              else Inr (vecObj distance zero zero))
      | _ \<Rightarrow> Inl TypeError)"

subsection \<open>convertTasksToActions\<close>

definition mkAction :: "string \<Rightarrow> jsval \<Rightarrow> jsval" where
  "mkAction name params = JObj [(''action'', JStr (ustr name)), (''params'', params)]"

text \<open>
  One round of the \<open>for ... of\<close> loop: the actions the task pushes (none for an unknown
  type), or the exception it throws. \<open>task.type\<close> throws on a \<open>null\<close> task, and
  \<open>task.target.x\<close> on a \<open>null\<close> target (whose \<open>typeof\<close> is \<open>object\<close>).
  \<open>relativeMove\<close> is the two branches of a move without absolute coordinates. The
  literal in the chat case is U+3053 U+3093 U+306B U+3061 U+306F. The default case logs
  \<open>`Unknown task type: ${task.type}`\<close>, which throws when the type cannot be
  converted to a string.
\<close>

definition relativeMove :: "runtime \<Rightarrow> jsval \<Rightarrow> error + jsval list" where
  "relativeMove rt details =
     (if truthy details \<and> truthy (getPropOpt details ''direction'') then
        (case parseDirection rt (getPropOpt details ''direction'')
                (jsOr (getPropOpt details ''distance'') (JNum (Fin 1))) of
           Inl e \<Rightarrow> Inl e
         | Inr dir \<Rightarrow> Inr [mkAction ''moveRelative'' dir])
      else
        Inr [mkAction ''moveRelative'' (vecObj (JNum (Fin 1)) (JNum (Fin 0)) (JNum (Fin 0)))])"

definition convertTask :: "runtime \<Rightarrow> jsval \<Rightarrow> error + jsval list" where
  "convertTask rt task =
     (case getProp task ''type'' of
        Inl e \<Rightarrow> Inl e
      | Inr ty \<Rightarrow>
          (let target = getPropOpt task ''target'';
               details = getPropOpt task ''details'';
               amount = jsOr (getPropOpt details ''amount'') (JNum (Fin 1))
           in if ty = JStr (ustr ''move'') then
                (case (if typeof target = ''object'' then getProp target ''x'' else Inr JUndefined) of
                   Inl e \<Rightarrow> Inl e
                 | Inr tx \<Rightarrow>
                     if typeof target = ''object'' \<and> tx \<noteq> JUndefined then
                       Inr [mkAction ''move''
                              (vecObj tx (jsOr (getPropOpt target ''y'') (JNum (Fin 64)))
                                 (getPropOpt target ''z''))]
                     else relativeMove rt details)
              else if ty = JStr (ustr ''dig'') \<or> ty = JStr (ustr ''mine'') then
                Inr [mkAction ''mine'' (JObj [(''blockType'', target), (''amount'', amount)])]
              else if ty = JStr (ustr ''collect'') then
                Inr [mkAction ''collect'' (JObj [(''itemType'', target), (''amount'', amount)])]
              else if ty = JStr (ustr ''place'') then
                Inr [mkAction ''place''
                       (JObj [(''blockType'', target),
                              (''position'', jsOr (getPropOpt details ''position'') JNull)])]
              else if ty = JStr (ustr ''craft'') then
                Inr [mkAction ''craft'' (JObj [(''item'', target), (''amount'', amount)])]
              else if ty = JStr (ustr ''chat'') then
                Inr [mkAction ''chat''
                       (JObj [(''message'',
                               jsOr target
                                 (jsOr (getPropOpt details ''message'')
                                    (JStr [12371, 12435, 12395, 12385, 12399])))])]
              else if toPrimitiveThrows ty then Inl TypeError
              else Inr []))"

fun convertLoop :: "runtime \<Rightarrow> jsval list \<Rightarrow> error + jsval list" where
  "convertLoop rt [] = Inr []"
| "convertLoop rt (task # rest) =
     (case convertTask rt task of
        Inl e \<Rightarrow> Inl e
      | Inr acts \<Rightarrow>
          (case convertLoop rt rest of
             Inl e \<Rightarrow> Inl e
           | Inr others \<Rightarrow> Inr (acts @ others)))"

text \<open>
  \<open>for (const task of tasks)\<close>: an array yields its elements and a string its
  characters (one-character strings); any other value is not iterable.
\<close>

definition iterate :: "jsval \<Rightarrow> error + jsval list" where
  "iterate v =
     (case v of
        JArr xs \<Rightarrow> Inr xs
      | JStr s \<Rightarrow> Inr (map (\<lambda>c. JStr [c]) s)
      | _ \<Rightarrow> Inl TypeError)"

definition convertTasksToActions :: "runtime \<Rightarrow> jsval \<Rightarrow> error + jsval" where
  "convertTasksToActions rt tasks =
     (case iterate tasks of
        Inl e \<Rightarrow> Inl e
      | Inr ts \<Rightarrow>
          (case convertLoop rt ts of
             Inl e \<Rightarrow> Inl e
           | Inr acts \<Rightarrow> Inr (JArr acts)))"

subsection \<open>createFallbackCommand\<close>

text \<open>
  The keyword tests, in the order of the source: walking (U+6B69, U+9032, U+79FB U+52D5),
  chat (U+30C1 U+30E3 U+30C3 U+30C8, U+8A71, U+8A00), mining (U+6398, U+63A1 U+6398,
  mine). \<open>instruction.toLowerCase()\<close> throws when the instruction is not a string.
  \<open>numbers[0]\<close> of a match is its first run; the model keeps the read of an empty array
  (\<open>undefined\<close>, which \<open>parseInt\<close> turns into \<open>NaN\<close>) although a match is never empty.
\<close>

definition fallbackResult :: "bool \<Rightarrow> jsval \<Rightarrow> jsstring \<Rightarrow> jsval \<Rightarrow> jsval" where
  "fallbackResult ok action reasoning instruction =
     JObj ((''success'', JBool ok)
           # (if ok then [] else
                [(''error'',
                  JStr [25351, 31034, 12434, 29702, 35299, 12391, 12365, 12414, 12379,
                        12435, 12391, 12375, 12383])])
           @ [(''actions'', JArr [action]),
              (''reasoning'', JStr reasoning),
              (''originalInput'', instruction),
              (''fallback'', JBool True)])"

definition createFallbackCommand :: "runtime \<Rightarrow> jsval \<Rightarrow> error + jsval" where
  "createFallbackCommand rt instruction =
     (case instruction of
        JStr s \<Rightarrow>
          (let input = toLowerCase rt s
           in if js_includes input [27497] \<or> js_includes input [36914]
                 \<or> js_includes input [31227, 21205]
              then
                (let numbers = matchDigits s;
                     distance =
                       (case numbers of
                          None \<Rightarrow> Fin 1
                        | Some ns \<Rightarrow> (case ns of [] \<Rightarrow> NaN | n # _ \<Rightarrow> parseInt rt n))
                 in Inr (fallbackResult True
                           (mkAction ''moveRelative''
                              (vecObj (JNum distance) (JNum (Fin 0)) (JNum (Fin 0))))
                           (ToString rt (JNum distance)
                              @ [12502, 12525, 12483, 12463, 21069, 36914, 12375, 12414, 12377])
                           instruction))
              else if js_includes input [12481, 12515, 12483, 12488]
                      \<or> js_includes input [35441] \<or> js_includes input [35328]
              then
                Inr (fallbackResult True
                       (mkAction ''chat''
                          (JObj [(''message'', JStr [12371, 12435, 12395, 12385, 12399, 65281])]))
                       [12481, 12515, 12483, 12488, 12391, 12513, 12483, 12475, 12540, 12472,
                        12434, 36865, 20449, 12375, 12414, 12377]
                       instruction)
              else if js_includes input [25496] \<or> js_includes input [25505, 25496]
                      \<or> js_includes input (ustr ''mine'')
              then
                Inr (fallbackResult True
                       (mkAction ''mine''
                          (JObj [(''blockType'', JStr (ustr ''any'')), (''amount'', JNum (Fin 1))]))
                       [12502, 12525, 12483, 12463, 12434, 25505, 25496, 12375, 12414, 12377]
                       instruction)
              else
                Inr (fallbackResult False
                       (mkAction ''chat''
                          (JObj [(''message'',
                                  JStr [12377, 12415, 12414, 12379, 12435, 12289, 25351, 31034,
                                        12434, 29702, 35299, 12391, 12365, 12414, 12379, 12435,
                                        12391, 12375, 12383])]))
                       [25351, 31034, 12364, 19981, 26126, 30906, 12391, 12377]
                       instruction))
      | _ \<Rightarrow> Inl TypeError)"

subsection \<open>parseCommand\<close>

text \<open>
  \<open>analysis\<close> is what \<open>await this.analyzeTask(instruction, context)\<close> gives: the decoded
  JSON of the remote model, or the exception of a failed call or an undecodable
  answer. The \<open>try\<close> block starts with a log line that holds \<open>${instruction}\<close>.
  Whatever the \<open>try\<close> block throws, the \<open>catch\<close> answers with the fallback.
\<close>

definition parseCommandTry :: "runtime \<Rightarrow> error + jsval \<Rightarrow> jsval \<Rightarrow> error + jsval" where
  "parseCommandTry rt analysis instruction =
     (if toPrimitiveThrows instruction then Inl TypeError
      else case analysis of
        Inl e \<Rightarrow> Inl e
      | Inr analysisResult \<Rightarrow>
          (case getProp analysisResult ''tasks'' of
             Inl e \<Rightarrow> Inl e
           | Inr tasks \<Rightarrow>
               (case convertTasksToActions rt (jsOr tasks (JArr [])) of
                  Inl e \<Rightarrow> Inl e
                | Inr actions \<Rightarrow>
                    Inr (JObj [(''success'', JBool True),
                               (''actions'', actions),
                               (''reasoning'',
                                jsOr (getPropOpt analysisResult ''reasoning'') (JStr [])),
                               (''originalInput'', instruction)]))))"

definition parseCommand :: "runtime \<Rightarrow> error + jsval \<Rightarrow> jsval \<Rightarrow> error + jsval" where
  "parseCommand rt analysis instruction =
     (case parseCommandTry rt analysis instruction of
        Inl e \<Rightarrow> createFallbackCommand rt instruction
      | Inr r \<Rightarrow> Inr r)"

section \<open>MinecraftBot (src/unnamed/part_004)\<close>

text \<open>
  The bot object wraps a mineflayer bot, which is not code of the repository. Of the
  mineflayer bot the model keeps what the source reads and writes: health and food, the
  position of the bot's entity, the goal held by the pathfinder plugin (\<open>None\<close> is
  \<open>null\<close>), the entities it knows, the chat messages sent through it, and the answers
  of its world queries.
\<close>

datatype vec3 = Vec3 (vx: rat) (vy: rat) (vz: rat)

datatype goal = GoalBlock jsnum jsnum jsnum | GoalLookAtBlock vec3

text \<open>An entity: \<open>entity.name\<close>, \<open>entity.metadata[8]\<close> and \<open>entity.position\<close>.\<close>

record entity =
  entityName :: jsval
  entityMetadata8 :: jsval
  entityPosition :: vec3

text \<open>
  \<open>findBlocks\<close> is \<open>bot.findBlocks\<close> for the block name it is given, with the
  \<open>maxDistance\<close> 32 and \<open>count\<close> 10 of the source. \<open>inventoryView\<close>,
  \<open>nearbyBlocksView\<close> and \<open>nearbyEntitiesView\<close> hold what \<open>getInventoryItems\<close>,
  \<open>getNearbyBlocks\<close> and \<open>getNearbyEntities\<close> return: the three only read the
  mineflayer world and their results only travel to the language model.
  A \<open>health\<close> that is not a number yet is \<open>NaN\<close> (both fail \<open>health > 0\<close>).
\<close>

record mineflayer =
  health :: jsnum
  food :: jsnum
  position :: vec3
  pathfinderGoal :: "goal option"
  entities :: "entity list"
  chatLog :: "jsval list"
  findBlocks :: "jsval \<Rightarrow> vec3 list"
  timeOfDay :: jsnum
  isRaining :: bool
  inventoryView :: jsval
  nearbyBlocksView :: jsval
  nearbyEntitiesView :: jsval

text \<open>
  The \<open>MinecraftBot\<close> object: \<open>mineflayerBot\<close> is its field \<open>this.bot\<close> (\<open>None\<close> is
  \<open>null\<close>). \<open>clock\<close> is not a field of the source: it counts the \<open>await\<close>s on outside
  events passed so far and indexes the environment.
\<close>

record MinecraftBot =
  mineflayerBot :: "mineflayer option"
  isConnected :: bool
  clock :: nat

text \<open>
  What the outside world decides. \<open>goalReached k\<close>: at the await numbered \<open>k\<close>, the
  pathfinder's \<open>goal_reached\<close> event comes before the timer. \<open>digFails k\<close>: the dig
  awaited at \<open>k\<close> rejects. \<open>drift k\<close>: what the game, the network and the mineflayer
  library did to the mineflayer bot and to \<open>isConnected\<close> (the \<open>kicked\<close> and \<open>end\<close>
  handlers) while the await numbered \<open>k\<close> was pending. \<open>isoTime k\<close>:
  \<open>new Date().toISOString()\<close> read at \<open>k\<close>. The field \<open>this.bot\<close> itself is only
  set to \<open>null\<close> by \<open>disconnect\<close>, which the program calls when it shuts down.
\<close>

record env =
  goalReached :: "nat \<Rightarrow> bool"
  digFails :: "nat \<Rightarrow> bool"
  drift :: "nat \<Rightarrow> mineflayer \<times> bool \<Rightarrow> mineflayer \<times> bool"
  isoTime :: "nat \<Rightarrow> jsstring"

text \<open>An \<open>await\<close> on an outside event: the world moves on.\<close>

definition pending :: "env \<Rightarrow> MinecraftBot \<Rightarrow> MinecraftBot" where
  "pending env b =
     (case mineflayerBot b of
        None \<Rightarrow> b\<lparr>clock := Suc (clock b)\<rparr>
      | Some m \<Rightarrow>
          (case drift env (clock b) (m, isConnected b) of
             (m', c') \<Rightarrow> b\<lparr>mineflayerBot := Some m', isConnected := c', clock := Suc (clock b)\<rparr>))"

text \<open>\<open>this.bot.pathfinder.setGoal(g)\<close>\<close>

definition setGoal :: "goal option \<Rightarrow> MinecraftBot \<Rightarrow> MinecraftBot" where
  "setGoal g b = b\<lparr>mineflayerBot := map_option (\<lambda>m. m\<lparr>pathfinderGoal := g\<rparr>) (mineflayerBot b)\<rparr>"

subsection \<open>getGameState\<close>

record gameState =
  gsPosition :: vec3
  gsHealth :: jsnum
  gsFood :: jsnum
  gsInventory :: jsval
  gsNearbyBlocks :: jsval
  gsNearbyEntities :: jsval
  gsTime :: jsnum
  gsWeather :: jsstring

definition floorVec :: "vec3 \<Rightarrow> vec3" where
  "floorVec p = Vec3 (of_int \<lfloor>vx p\<rfloor>) (of_int \<lfloor>vy p\<rfloor>) (of_int \<lfloor>vz p\<rfloor>)"

definition getGameState :: "MinecraftBot \<Rightarrow> gameState option" where
  "getGameState b =
     (case mineflayerBot b of
        None \<Rightarrow> None
      | Some m \<Rightarrow>
          if \<not> isConnected b then None
          else Some \<lparr>gsPosition = floorVec (position m),
                     gsHealth = health m,
                     gsFood = food m,
                     gsInventory = inventoryView m,
                     gsNearbyBlocks = nearbyBlocksView m,
                     gsNearbyEntities = nearbyEntitiesView m,
                     gsTime = timeOfDay m,
                     gsWeather = (if isRaining m then ustr ''rain'' else ustr ''clear'')\<rparr>)"

subsection \<open>Actions\<close>

text \<open>The message of the \<open>Error\<close> thrown by every action on a bot that is not connected.\<close>

definition notConnected :: error where
  "notConnected =
     Error [12508, 12483, 12488, 12364, 25509, 32154, 12373, 12428, 12390, 12356, 12414,
            12379, 12435]"

text \<open>
  \<open>moveToPosition\<close>: the promise resolves \<open>true\<close> on \<open>goal_reached\<close>, and \<open>false\<close>
  when the 30 s timer fires first, whose callback clears the goal.
\<close>

definition moveToPosition ::
  "env \<Rightarrow> MinecraftBot \<Rightarrow> jsnum \<Rightarrow> jsnum \<Rightarrow> jsnum \<Rightarrow> (error + bool) \<times> MinecraftBot" where
  "moveToPosition env b x y z =
     (if mineflayerBot b = None \<or> \<not> isConnected b then (Inl notConnected, b)
      else
        (let b1 = setGoal (Some (GoalBlock x y z)) b;
             reached = goalReached env (clock b1);
             b2 = pending env b1
         in if reached then (Inr True, b2) else (Inr False, setGoal None b2)))"

text \<open>
  \<open>mineBlock\<close>: the first log line holds \<open>${blockType}\<close>. At most three of the blocks
  found are tried; a try walks towards the block (until \<open>goal_reached\<close> or 5 s), digs,
  and returns \<open>true\<close>; a dig that throws moves on to the next block.
\<close>

fun mineLoop :: "env \<Rightarrow> MinecraftBot \<Rightarrow> vec3 list \<Rightarrow> bool \<times> MinecraftBot" where
  "mineLoop env b [] = (False, b)"
| "mineLoop env b (blockPos # rest) =
     (let b1 = setGoal (Some (GoalLookAtBlock blockPos)) b;
          b2 = pending env b1;
          failed = digFails env (clock b2);
          b3 = pending env b2
      in if failed then mineLoop env b3 rest else (True, b3))"

definition mineBlock :: "env \<Rightarrow> MinecraftBot \<Rightarrow> jsval \<Rightarrow> (error + bool) \<times> MinecraftBot" where
  "mineBlock env b blockType =
     (case mineflayerBot b of
        None \<Rightarrow> (Inl notConnected, b)
      | Some m \<Rightarrow>
          if \<not> isConnected b then (Inl notConnected, b)
          else if toPrimitiveThrows blockType then (Inl TypeError, b)
          else
            (let blocks = findBlocks m blockType
             in if blocks = [] then (Inr False, b)
                else (case mineLoop env b (take 3 blocks) of (r, b') \<Rightarrow> (Inr r, b'))))"

text \<open>
  \<open>collectItems\<close>. The first log line holds \<open>${amount}\<close>. The item-type filter
  stands before the \<open>try\<close>, so what it throws leaves the function:
  \<open>metadata.value.name\<close> throws when \<open>value\<close> is \<open>undefined\<close> or \<open>null\<close>,
  \<open>.includes\<close> exists on strings and arrays only, and on a string it converts its
  argument to a string. The result of the filter is whether the entity is skipped.
\<close>

definition distSq :: "vec3 \<Rightarrow> vec3 \<Rightarrow> rat" where
  "distSq p q = (vx p - vx q)^2 + (vy p - vy q)^2 + (vz p - vz q)^2"

definition isObject :: "jsval \<Rightarrow> bool" where
  "isObject v = (case v of JArr xs \<Rightarrow> True | JObj kvs \<Rightarrow> True | _ \<Rightarrow> False)"

definition itemFilter :: "runtime \<Rightarrow> entity \<Rightarrow> jsval \<Rightarrow> error + bool" where
  "itemFilter rt e itemType =
     (if \<not> truthy itemType then Inr False
      else
        (let metadata = entityMetadata8 e
         in if \<not> truthy metadata then Inr True
            else if \<not> truthy (getPropOpt metadata ''present'') then Inr True
            else
              (case getProp (getPropOpt metadata ''value'') ''name'' of
                 Inl err \<Rightarrow> Inl err
               | Inr n \<Rightarrow>
                   (case n of
                      JStr s \<Rightarrow>
                        if toPrimitiveThrows itemType then Inl TypeError
                        else Inr (\<not> js_includes s (ToString rt itemType))
                    | JArr xs \<Rightarrow> Inr (\<not> (\<not> isObject itemType \<and> itemType \<in> set xs))
                    | _ \<Rightarrow> Inl TypeError))))"

fun collectLoop ::
  "runtime \<Rightarrow> env \<Rightarrow> MinecraftBot \<Rightarrow> jsval \<Rightarrow> jsval \<Rightarrow> entity list \<Rightarrow> nat
     \<Rightarrow> (error + nat) \<times> MinecraftBot" where
  "collectLoop rt env b itemType amount [] collected = (Inr collected, b)"
| "collectLoop rt env b itemType amount (e # rest) collected =
     (if entityName e \<noteq> JStr (ustr ''item'')
      then collectLoop rt env b itemType amount rest collected
      else if numGreaterEq (Fin (of_nat collected)) (ToNumber rt amount)
      then (Inr collected, b)
      else
        (case itemFilter rt e itemType of
           Inl err \<Rightarrow> (Inl err, b)
         | Inr skip \<Rightarrow>
             if skip then collectLoop rt env b itemType amount rest collected
             else
               (case mineflayerBot b of
                  None \<Rightarrow> collectLoop rt env b itemType amount rest collected
                | Some m \<Rightarrow>
                    if distSq (position m) (entityPosition e) > 1024
                    then collectLoop rt env b itemType amount rest collected
                    else
                      (let p = floorVec (entityPosition e);
                           b1 = setGoal (Some (GoalBlock (Fin (vx p)) (Fin (vy p)) (Fin (vz p)))) b;
                           b2 = pending env b1;
                           b3 = pending env b2
                       in collectLoop rt env b3 itemType amount rest (Suc collected)))))"

definition collectItems ::
  "runtime \<Rightarrow> env \<Rightarrow> MinecraftBot \<Rightarrow> jsval \<Rightarrow> jsval \<Rightarrow> (error + nat) \<times> MinecraftBot" where
  "collectItems rt env b itemType0 amount0 =
     (let itemType = (if itemType0 = JUndefined then JNull else itemType0);
          amount = (if amount0 = JUndefined then JNum (Fin 1) else amount0)
      in case mineflayerBot b of
           None \<Rightarrow> (Inl notConnected, b)
         | Some m \<Rightarrow>
             if \<not> isConnected b then (Inl notConnected, b)
             else if toPrimitiveThrows amount then (Inl TypeError, b)
             else collectLoop rt env b itemType amount (entities m) 0)"

text \<open>\<open>sendChat\<close> logs \<open>`... ${message}`\<close> before it hands the message to the bot.\<close>

definition sendChat :: "MinecraftBot \<Rightarrow> jsval \<Rightarrow> (error + unit) \<times> MinecraftBot" where
  "sendChat b message =
     (case mineflayerBot b of
        None \<Rightarrow> (Inl notConnected, b)
      | Some m \<Rightarrow>
          if \<not> isConnected b then (Inl notConnected, b)
          else if toPrimitiveThrows message then (Inl TypeError, b)
          else (Inr (), b\<lparr>mineflayerBot := Some (m\<lparr>chatLog := chatLog m @ [message]\<rparr>)\<rparr>))"

definition isAlive :: "MinecraftBot \<Rightarrow> bool" where
  "isAlive b =
     (case mineflayerBot b of
        None \<Rightarrow> False
      | Some m \<Rightarrow> isConnected b \<and> numGreater (health m) (Fin 0))"

section \<open>TaskExecutor (src/unnamed/part_001)\<close>

text \<open>
  The file holds two revisions of the class. The model follows the first (lines 1 to
  345), the one that reads \<open>parsedCommand.actions\<close> as \<open>LLMInterface.parseCommand\<close>
  of src/src/ai/llmInterface.js builds it and that knows the action \<open>moveRelative\<close>.
  Console output is not modelled.
\<close>

record historyEntry =
  input :: jsval
  tasks :: jsval
  successCount :: nat
  timestamp :: jsstring

text \<open>
  The executor object. \<open>executorBot\<close> is its field \<open>this.bot\<close>, the \<open>MinecraftBot\<close>
  it was constructed with; \<open>this.llm\<close> is the parameter \<open>llm\<close> of \<open>executeCommand\<close>:
  what \<open>await this.llm.parseCommand(userInput, gameState)\<close> gives.
\<close>

record TaskExecutor =
  executorBot :: MinecraftBot
  taskQueue :: "jsval list"
  isExecuting :: bool
  executionHistory :: "historyEntry list"

type_synonym llm = "jsval \<Rightarrow> gameState \<Rightarrow> error + jsval"

subsection \<open>The action handlers\<close>

text \<open>
  \<open>const { x, y, z } = params\<close> throws on \<open>undefined\<close> and \<open>null\<close>; on any other value
  a missing property is \<open>undefined\<close>.
\<close>

definition nullish :: "jsval \<Rightarrow> bool" where
  "nullish v = (v = JUndefined \<or> v = JNull)"

definition executeMove ::
  "env \<Rightarrow> MinecraftBot \<Rightarrow> jsval \<Rightarrow> (error + bool) \<times> MinecraftBot" where
  "executeMove env b params =
     (if nullish params then (Inl TypeError, b)
      else
        (case (getPropOpt params ''x'', getPropOpt params ''y'', getPropOpt params ''z'') of
           (JNum x, JNum y, JNum z) \<Rightarrow> moveToPosition env b x y z
         | _ \<Rightarrow> (Inr False, b)))"

text \<open>
  \<open>executeMoveRelative\<close> reads \<open>this.bot.bot.entity.position\<close> after the type check;
  the read throws when the bot object holds no mineflayer bot.
\<close>

definition executeMoveRelative ::
  "env \<Rightarrow> MinecraftBot \<Rightarrow> jsval \<Rightarrow> (error + bool) \<times> MinecraftBot" where
  "executeMoveRelative env b params =
     (if nullish params then (Inl TypeError, b)
      else
        (case (getPropOpt params ''x'', getPropOpt params ''y'', getPropOpt params ''z'') of
           (JNum x, JNum y, JNum z) \<Rightarrow>
             (case mineflayerBot b of
                None \<Rightarrow> (Inl TypeError, b)
              | Some m \<Rightarrow>
                  (let currentPos = position m;
                       targetX = numAdd (Fin (vx currentPos)) x;
                       targetY = numAdd (Fin (vy currentPos)) y;
                       targetZ = numAdd (Fin (vz currentPos)) z
                   in moveToPosition env b targetX targetY targetZ))
         | _ \<Rightarrow> (Inr False, b)))"

definition executeMine ::
  "env \<Rightarrow> MinecraftBot \<Rightarrow> jsval \<Rightarrow> (error + bool) \<times> MinecraftBot" where
  "executeMine env b params =
     (if nullish params then (Inl TypeError, b)
      else
        (let blockType = getPropOpt params ''blockType''
         in if \<not> truthy blockType then (Inr False, b) else mineBlock env b blockType))"

text \<open>\<open>const { itemType, amount = 1 } = params\<close>: the default stands in for \<open>undefined\<close> only.\<close>

definition executeCollect ::
  "runtime \<Rightarrow> env \<Rightarrow> MinecraftBot \<Rightarrow> jsval \<Rightarrow> (error + bool) \<times> MinecraftBot" where
  "executeCollect rt env b params =
     (if nullish params then (Inl TypeError, b)
      else
        (let itemType = getPropOpt params ''itemType'';
             amount = (if getPropOpt params ''amount'' = JUndefined then JNum (Fin 1)
                       else getPropOpt params ''amount'')
         in case collectItems rt env b itemType amount of
              (Inl e, b') \<Rightarrow> (Inl e, b')
            | (Inr collected, b') \<Rightarrow> (Inr (collected > 0), b')))"

definition executeChat :: "MinecraftBot \<Rightarrow> jsval \<Rightarrow> (error + bool) \<times> MinecraftBot" where
  "executeChat b params =
     (if nullish params then (Inl TypeError, b)
      else
        (let message = getPropOpt params ''message''
         in if \<not> truthy message then (Inr False, b)
            else
              (case sendChat b message of
                 (Inl e, b') \<Rightarrow> (Inl e, b')
               | (Inr u, b') \<Rightarrow> (Inr True, b'))))"

definition executePlace :: "MinecraftBot \<Rightarrow> jsval \<Rightarrow> (error + bool) \<times> MinecraftBot" where
  "executePlace b params = (Inr False, b)"

definition executeCraft :: "MinecraftBot \<Rightarrow> jsval \<Rightarrow> (error + bool) \<times> MinecraftBot" where
  "executeCraft b params = (Inr False, b)"

subsection \<open>executeTask\<close>

text \<open>
  The template \<open>`${task.action}`\<close> of the log lines: reading the property throws on
  \<open>undefined\<close> and \<open>null\<close>, and the conversion throws on a name that cannot be
  converted to a string.
\<close>

definition actionLabel :: "jsval \<Rightarrow> error + unit" where
  "actionLabel task =
     (case getProp task ''action'' of
        Inl e \<Rightarrow> Inl e
      | Inr a \<Rightarrow> if toPrimitiveThrows a then Inl TypeError else Inr ())"

text \<open>
  The body of the \<open>try\<close>: the \<open>switch\<close> on \<open>task.action\<close> (strict equality with the
  string labels), each handler called with \<open>task.params || task.parameters\<close>. The
  default case logs the name of the action.
\<close>

definition executeTaskTry ::
  "runtime \<Rightarrow> env \<Rightarrow> MinecraftBot \<Rightarrow> jsval \<Rightarrow> (error + bool) \<times> MinecraftBot" where
  "executeTaskTry rt env b task =
     (case getProp task ''action'' of
        Inl e \<Rightarrow> (Inl e, b)
      | Inr a \<Rightarrow>
          (let params = jsOr (getPropOpt task ''params'') (getPropOpt task ''parameters'')
           in if a = JStr (ustr ''move'') then executeMove env b params
              else if a = JStr (ustr ''moveRelative'') then executeMoveRelative env b params
              else if a = JStr (ustr ''mine'') then executeMine env b params
              else if a = JStr (ustr ''collect'') then executeCollect rt env b params
              else if a = JStr (ustr ''chat'') then executeChat b params
              else if a = JStr (ustr ''place'') then executePlace b params
              else if a = JStr (ustr ''craft'') then executeCraft b params
              else if toPrimitiveThrows a then (Inl TypeError, b)
              else (Inr False, b)))"

text \<open>
  \<open>executeTask\<close>: a bot that is not alive fails the task at once; the \<open>catch\<close> turns
  an exception of the \<open>try\<close> into \<open>false\<close>, after a log line that holds
  \<open>${task.action}\<close>: what that line throws leaves \<open>executeTask\<close>.
\<close>

definition executeTask ::
  "runtime \<Rightarrow> env \<Rightarrow> MinecraftBot \<Rightarrow> jsval \<Rightarrow> (error + bool) \<times> MinecraftBot" where
  "executeTask rt env b task =
     (if \<not> isAlive b then (Inr False, b)
      else
        (case executeTaskTry rt env b task of
           (Inl e, b') \<Rightarrow>
             (case actionLabel task of
                Inl e' \<Rightarrow> (Inl e', b')
              | Inr u \<Rightarrow> (Inr False, b'))
         | (Inr result, b') \<Rightarrow> (Inr result, b')))"

subsection \<open>executeCommand\<close>

text \<open>
  What a caller can observe of one command besides its result and the executor's
  fields: the calls of \<open>executeTask\<close>, each with the action it was given and the result
  it returned, and the calls of \<open>this.wait\<close>, in the order they were awaited.
\<close>

datatype event = Dispatch jsval bool | Wait nat

text \<open>
  The \<open>forEach\<close> over the actions, which only logs. Its first line about an action
  holds \<open>${action.action}\<close>; then it reads \<open>action.params\<close>, which it prints with
  \<open>JSON.stringify\<close>.
\<close>

fun checkActions :: "jsval list \<Rightarrow> error + unit" where
  "checkActions [] = Inr ()"
| "checkActions (action # rest) =
     (case actionLabel action of
        Inl e \<Rightarrow> Inl e
      | Inr u \<Rightarrow>
          (case getProp action ''params'' of
             Inl e \<Rightarrow> Inl e
           | Inr p \<Rightarrow> checkActions rest))"

text \<open>
  The dispatch loop over \<open>parsedCommand.actions\<close> from index \<open>i\<close> on: \<open>rest\<close> is not
  empty exactly when \<open>i < parsedCommand.actions.length - 1\<close>, and \<open>successCount0\<close>
  is the variable \<open>successCount\<close> on entry. A round logs the name of the action, awaits
  \<open>executeTask\<close>, counts, and waits. The loop returns the final \<open>successCount\<close> or
  the exception that ended it, the bot, and the events. (The warning after a failed
  action holds the same \<open>${action.action}\<close> as the first log line of the round.)
\<close>

fun dispatchLoop ::
  "runtime \<Rightarrow> env \<Rightarrow> MinecraftBot \<Rightarrow> jsval list \<Rightarrow> nat
     \<Rightarrow> (error + nat) \<times> MinecraftBot \<times> event list" where
  "dispatchLoop rt env b [] successCount0 = (Inr successCount0, b, [])"
| "dispatchLoop rt env b (action # rest) successCount0 =
     (case actionLabel action of
        Inl e \<Rightarrow> (Inl e, b, [])
      | Inr u \<Rightarrow>
          (case executeTask rt env b action of
             (Inl e, b1) \<Rightarrow> (Inl e, b1, [])
           | (Inr success, b1) \<Rightarrow>
               (let successCount1 = (if success then successCount0 + 1 else successCount0);
                    b2 = (if rest \<noteq> [] then pending env b1 else b1);
                    waited = (if rest \<noteq> [] then [Wait 1000] else [])
                in case dispatchLoop rt env b2 rest successCount1 of
                     (r, b3, evs) \<Rightarrow> (r, b3, Dispatch action success # waited @ evs))))"

text \<open>
  The body of the \<open>try\<close> after \<open>this.isExecuting = true\<close>. \<open>actions.forEach\<close> is a
  function on arrays only: calling it on any other value that passed the emptiness
  test throws.
\<close>

definition executeCommandTry ::
  "runtime \<Rightarrow> env \<Rightarrow> llm \<Rightarrow> TaskExecutor \<Rightarrow> jsval \<Rightarrow> (error + bool) \<times> TaskExecutor \<times> event list" where
  "executeCommandTry rt env llm this userInput =
     (case getGameState (executorBot this) of
        None \<Rightarrow> (Inr False, this, [])
      | Some gameState \<Rightarrow>
          (let answer = llm userInput gameState;
               this1 = this\<lparr>executorBot := pending env (executorBot this)\<rparr>
           in case answer of
                Inl e \<Rightarrow> (Inl e, this1, [])
              | Inr parsedCommand \<Rightarrow>
                  if \<not> truthy parsedCommand then (Inr False, this1, [])
                  else if \<not> truthy (getPropOpt parsedCommand ''actions'') then (Inr False, this1, [])
                  else if getPropOpt (getPropOpt parsedCommand ''actions'') ''length'' = JNum (Fin 0)
                  then (Inr False, this1, [])
                  else
                    (case getPropOpt parsedCommand ''actions'' of
                       JArr actions \<Rightarrow>
                         (case checkActions actions of
                            Inl e \<Rightarrow> (Inl e, this1, [])
                          | Inr u \<Rightarrow>
                              (case dispatchLoop rt env (executorBot this1) actions 0 of
                                 (Inl e, b, evs) \<Rightarrow> (Inl e, this1\<lparr>executorBot := b\<rparr>, evs)
                               | (Inr n, b, evs) \<Rightarrow>
                                   (Inr (n > 0),
                                    this1\<lparr>executorBot := b,
                                          executionHistory :=
                                            executionHistory this1
                                              @ [\<lparr>input = userInput,
                                                   tasks = JArr actions,
                                                   successCount = n,
                                                   timestamp = isoTime env (clock b)\<rparr>]\<rparr>,
                                    evs)))
                     | _ \<Rightarrow> (Inl TypeError, this1, []))))"

text \<open>
  \<open>executeCommand\<close>: the busy test stands before the \<open>try\<close>; the \<open>catch\<close> answers an
  exception of the body with \<open>false\<close>; the \<open>finally\<close> clears the flag after both.
  The log line between the busy test and the \<open>try\<close> holds \<open>${userInput}\<close>:
  \<open>userInput\<close> is a string by the declared type of the parameter, and a line of the
  console in the only caller, so the line does not throw.
\<close>

definition executeCommand ::
  "runtime \<Rightarrow> env \<Rightarrow> llm \<Rightarrow> TaskExecutor \<Rightarrow> jsval \<Rightarrow> (error + bool) \<times> TaskExecutor \<times> event list" where
  "executeCommand rt env llm this userInput =
     (if isExecuting this then (Inr False, this, [])
      else
        (case executeCommandTry rt env llm (this\<lparr>isExecuting := True\<rparr>) userInput of
           (r, this', evs) \<Rightarrow>
             ((case r of Inl e \<Rightarrow> Inr False | Inr v \<Rightarrow> Inr v),
              this'\<lparr>isExecuting := False\<rparr>,
              evs)))"

subsection \<open>emergencyStop\<close>

definition emergencyStop :: "TaskExecutor \<Rightarrow> TaskExecutor" where
  "emergencyStop this =
     (let this1 = this\<lparr>isExecuting := False, taskQueue := []\<rparr>
      in case mineflayerBot (executorBot this1) of
           None \<Rightarrow> this1
         | Some m \<Rightarrow> this1\<lparr>executorBot := setGoal None (executorBot this1)\<rparr>)"

section \<open>Vocabulary of the properties\<close>

text \<open>The goal the pathfinder of the executor's bot holds, if any.\<close>

definition pendingGoal :: "TaskExecutor \<Rightarrow> goal option" where
  "pendingGoal this =
     (case mineflayerBot (executorBot this) of None \<Rightarrow> None | Some m \<Rightarrow> pathfinderGoal m)"

text \<open>An event without its result: which call was made.\<close>

datatype call = ExecuteTask jsval | WaitMs nat

fun callOf :: "event \<Rightarrow> call" where
  "callOf (Dispatch action success) = ExecuteTask action"
| "callOf (Wait ms) = WaitMs ms"

fun succeeded :: "event \<Rightarrow> bool" where
  "succeeded (Dispatch action success) = success"
| "succeeded (Wait ms) = False"

text \<open>
  The calls the specification asks of a plan: every action in plan order, a wait of
  1000 ms between two consecutive actions and none after the last.
\<close>

fun planCalls :: "jsval list \<Rightarrow> call list" where
  "planCalls [] = []"
| "planCalls [action] = [ExecuteTask action]"
| "planCalls (action # next # rest) =
     ExecuteTask action # WaitMs 1000 # planCalls (next # rest)"

text \<open>The actions handed to \<open>executeTask\<close>, in the order of the calls.\<close>

fun dispatched :: "event list \<Rightarrow> jsval list" where
  "dispatched [] = []"
| "dispatched (Dispatch action success # evs) = action # dispatched evs"
| "dispatched (Wait ms # evs) = dispatched evs"

text \<open>
  The keywords of the fallback parser, and an instruction that matches none of them.
\<close>

definition fallbackKeywords :: "jsstring list" where
  "fallbackKeywords =
     [[27497], [36914], [31227, 21205],
      [12481, 12515, 12483, 12488], [35441], [35328],
      [25496], [25505, 25496], ustr ''mine'']"

definition unrecognised :: "runtime \<Rightarrow> jsstring \<Rightarrow> bool" where
  "unrecognised rt s = (\<not> list_ex (js_includes (toLowerCase rt s)) fallbackKeywords)"

text \<open>The one action of the fallback's answer to an instruction it does not recognise.\<close>

definition apologyAction :: jsval where
  "apologyAction =
     mkAction ''chat''
       (JObj [(''message'',
               JStr [12377, 12415, 12414, 12379, 12435, 12289, 25351, 31034, 12434, 29702,
                     35299, 12391, 12365, 12414, 12379, 12435, 12391, 12375, 12383])])"

text \<open>The language model behind \<open>LLMInterface\<close> when every remote call fails.\<close>

definition failingLlm :: "runtime \<Rightarrow> llm" where
  "failingLlm rt userInput gameState = parseCommand rt (Inl (Error [])) userInput"

section \<open>Concrete inputs\<close>

text \<open>
  An engine for the concrete evaluations. \<open>toLowerCase\<close> maps the letters A to Z and
  leaves every other code unit alone, which is ECMAScript's answer on strings without
  cased letters outside ASCII. \<open>parseInt\<close> reads a string of decimal digits (the only
  argument the source passes), exactly; ECMAScript rounds values above \<open>2^53\<close>.
  \<open>valueToString\<close> prints a natural number in decimal. \<open>valueToNumber\<close> reads the
  empty string and strings of decimal digits. Outside these arguments the two
  conversions are not ECMAScript's, and no evaluation below reaches them there.
\<close>

definition asciiLower :: "jsstring \<Rightarrow> jsstring" where
  "asciiLower s = map (\<lambda>c. if 65 \<le> c \<and> c \<le> 90 then c + 32 else c) s"

definition decimalValue :: "jsstring \<Rightarrow> nat" where
  "decimalValue s = foldl (\<lambda>acc c. 10 * acc + (c - 48)) 0 s"

fun decimalDigits :: "nat \<Rightarrow> jsstring" where
  "decimalDigits n = (if n < 10 then [48 + n] else decimalDigits (n div 10) @ [48 + n mod 10])"

definition engine :: runtime where
  "engine =
     \<lparr>toLowerCase = asciiLower,
      parseInt = (\<lambda>s. if s \<noteq> [] \<and> list_all isDigit s then Fin (of_nat (decimalValue s)) else NaN),
      valueToNumber =
        (\<lambda>v. case v of
                JStr s \<Rightarrow> if list_all isDigit s then Fin (of_nat (decimalValue s)) else NaN
              | _ \<Rightarrow> NaN),
      valueToString =
        (\<lambda>v. case v of
                JNum (Fin r) \<Rightarrow> if r = of_int \<lfloor>r\<rfloor> \<and> 0 \<le> r then decimalDigits (nat \<lfloor>r\<rfloor>) else []
              | _ \<Rightarrow> [])\<rparr>"

text \<open>
  A quiet world: every goal is reached in time, every dig works, and nothing changes
  while an await is pending.
\<close>

definition quiet :: env where
  "quiet =
     \<lparr>goalReached = (\<lambda>k. True),
      digFails = (\<lambda>k. False),
      drift = (\<lambda>k s. s),
      isoTime = (\<lambda>k. ustr ''2025-01-01T00:00:00.000Z'')\<rparr>"

text \<open>A dropped stone one block away, a healthy connected bot at (10, 64, 20), an idle
  executor on it, and the same executor while a command is in flight.\<close>

definition droppedStone :: entity where
  "droppedStone =
     \<lparr>entityName = JStr (ustr ''item''),
      entityMetadata8 =
        JObj [(''present'', JBool True), (''value'', JObj [(''name'', JStr (ustr ''stone''))])],
      entityPosition = Vec3 11 64 20\<rparr>"

definition steve :: mineflayer where
  "steve =
     \<lparr>health = Fin 20,
      food = Fin 20,
      position = Vec3 10 64 20,
      pathfinderGoal = None,
      entities = [droppedStone],
      chatLog = [],
      findBlocks = (\<lambda>blockType. []),
      timeOfDay = Fin 1000,
      isRaining = False,
      inventoryView = JArr [],
      nearbyBlocksView = JArr [],
      nearbyEntitiesView = JArr []\<rparr>"

definition connectedBot :: MinecraftBot where
  "connectedBot = \<lparr>mineflayerBot = Some steve, isConnected = True, clock = 0\<rparr>"

definition idleExecutor :: TaskExecutor where
  "idleExecutor =
     \<lparr>executorBot = connectedBot, taskQueue = [], isExecuting = False, executionHistory = []\<rparr>"

definition busyExecutor :: TaskExecutor where
  "busyExecutor = idleExecutor\<lparr>isExecuting := True\<rparr>"

text \<open>The instruction U+4F55 U+304B U+53EB U+3093 U+3067 of the specification's scenario.\<close>

definition shout :: jsval where
  "shout = JStr [20309, 12363, 21483, 12435, 12391]"

text \<open>
  More executors: one whose bot has lost its connection, one whose bot has no health
  left, and one in flight with a movement goal pending.
\<close>

definition offlineExecutor :: TaskExecutor where
  "offlineExecutor = idleExecutor\<lparr>executorBot := connectedBot\<lparr>isConnected := False\<rparr>\<rparr>"

definition deadExecutor :: TaskExecutor where
  "deadExecutor =
     idleExecutor\<lparr>executorBot := connectedBot\<lparr>mineflayerBot := Some (steve\<lparr>health := Fin 0\<rparr>)\<rparr>\<rparr>"

definition walkingExecutor :: TaskExecutor where
  "walkingExecutor =
     busyExecutor\<lparr>executorBot :=
       connectedBot\<lparr>mineflayerBot :=
         Some (steve\<lparr>pathfinderGoal := Some (GoalBlock (Fin 13) (Fin 64) (Fin 20))\<rparr>)\<rparr>\<rparr>"

text \<open>
  Plans and parsers: a chat action, a place action (which the executor does not
  implement), a parsed command holding given actions, and a parser with a fixed answer.
\<close>

definition helloAction :: jsval where
  "helloAction = mkAction ''chat'' (JObj [(''message'', JStr (ustr ''hello''))])"

definition placeAction :: jsval where
  "placeAction =
     mkAction ''place'' (JObj [(''blockType'', JStr (ustr ''stone'')), (''position'', JNull)])"

text \<open>
  An action whose name is the object \<open>{"toString": null}\<close> of a decoded JSON answer:
  the name cannot be converted to a string.
\<close>

definition unprintableAction :: jsval where
  "unprintableAction = JObj [(''action'', JObj [(''toString'', JNull)]), (''params'', JObj [])]"

definition planOf :: "jsval list \<Rightarrow> jsval" where
  "planOf actions =
     JObj [(''success'', JBool True), (''actions'', JArr actions), (''reasoning'', JStr [])]"

definition fixedLlm :: "error + jsval \<Rightarrow> llm" where
  "fixedLlm answer userInput gameState = answer"

text \<open>
  A task of the language model's answer that asks to collect a given amount of stone,
  and the action with a given amount.
\<close>

definition collectTask :: "jsval \<Rightarrow> jsval" where
  "collectTask amount =
     JObj [(''type'', JStr (ustr ''collect'')), (''target'', JStr (ustr ''stone'')),
           (''details'', JObj [(''amount'', amount)])]"

definition collectAction :: "jsval \<Rightarrow> jsval" where
  "collectAction amount =
     mkAction ''collect'' (JObj [(''itemType'', JStr (ustr ''stone'')), (''amount'', amount)])"

section \<open>Lemmas\<close>

text \<open>The unfolding that evaluates a command on the concrete inputs.\<close>

lemmas run_simps =
  executeCommand_def executeCommandTry_def executeTask_def executeTaskTry_def actionLabel_def
  executeChat_def executePlace_def executeCollect_def collectItems_def itemFilter_def
  sendChat_def isAlive_def getGameState_def pending_def setGoal_def
  convertTask_def parseCommand_def parseCommandTry_def createFallbackCommand_def
  fallbackResult_def failingLlm_def fixedLlm_def mkAction_def ustr_def
  getPropOpt_def jsOr_def nullish_def ToNumber_def ToString_def
  numGreater_def numGreaterEq_def distSq_def floorVec_def power2_eq_square Let_def
  emergencyStop_def pendingGoal_def unrecognised_def fallbackKeywords_def

lemmas input_simps =
  engine_def asciiLower_def quiet_def droppedStone_def steve_def connectedBot_def
  idleExecutor_def busyExecutor_def offlineExecutor_def deadExecutor_def walkingExecutor_def
  shout_def apologyAction_def helloAction_def placeAction_def unprintableAction_def planOf_def
  collectTask_def collectAction_def

subsection \<open>The logging pass and the dispatch loop\<close>

text \<open>
  The log line about an action goes through exactly when the action is neither
  \<open>undefined\<close> nor \<open>null\<close> and its name can be converted to a string.
\<close>

lemma actionLabel_iff:
  "actionLabel a = Inr () \<longleftrightarrow> \<not> nullish a \<and> \<not> toPrimitiveThrows (getPropOpt a ''action'')"
  by (cases a) (simp_all add: actionLabel_def nullish_def getPropOpt_def)

lemma actionLabel_params:
  "actionLabel a = Inr u \<Longrightarrow> \<exists>p. getProp a ''params'' = Inr p"
  by (cases a) (simp_all add: actionLabel_def)

lemma checkActions_iff:
  "checkActions actions = Inr () \<longleftrightarrow> (\<forall>a \<in> set actions. actionLabel a = Inr ())"
proof (induction actions)
  case Nil
  show ?case by simp
next
  case (Cons a rest)
  show ?case
  proof (cases "actionLabel a")
    case (Inl e)
    then show ?thesis by simp
  next
    case (Inr u)
    with actionLabel_params [OF Inr] Cons.IH show ?thesis by auto
  qed
qed

text \<open>After its log line went through, \<open>executeTask\<close> returns a boolean.\<close>

lemma executeTask_returns:
  assumes "actionLabel a = Inr ()"
  shows "\<exists>success b1. executeTask rt env b a = (Inr success, b1)"
proof (cases "isAlive b")
  case False
  then have "executeTask rt env b a = (Inr False, b)"
    by (simp add: executeTask_def)
  then show ?thesis by blast
next
  case True
  obtain r b' where t: "executeTaskTry rt env b a = (r, b')"
    by (cases "executeTaskTry rt env b a")
  show ?thesis
  proof (cases r)
    case (Inl e)
    with True assms t have "executeTask rt env b a = (Inr False, b')"
      by (simp add: executeTask_def)
    then show ?thesis by blast
  next
    case (Inr result)
    with True t have "executeTask rt env b a = (Inr result, b')"
      by (simp add: executeTask_def)
    then show ?thesis by blast
  qed
qed

text \<open>A round of the loop that did not end in an exception.\<close>

lemma dispatchLoop_round:
  assumes "dispatchLoop rt env b (a # rest) c = (Inr n, b', evs)"
  obtains success b1 evs2 where
    "executeTask rt env b a = (Inr success, b1)"
    "dispatchLoop rt env (if rest \<noteq> [] then pending env b1 else b1) rest
       (if success then c + 1 else c) = (Inr n, b', evs2)"
    "evs = Dispatch a success # (if rest \<noteq> [] then [Wait 1000] else []) @ evs2"
proof -
  from assms obtain u where l: "actionLabel a = Inr u"
    by (cases "actionLabel a") auto
  obtain r b1 where t: "executeTask rt env b a = (r, b1)"
    by (cases "executeTask rt env b a")
  with assms l obtain success where s: "r = Inr success"
    by (cases r) auto
  obtain r2 b3 evs2 where d:
    "dispatchLoop rt env (if rest \<noteq> [] then pending env b1 else b1) rest
       (if success then c + 1 else c) = (r2, b3, evs2)"
    by (cases "dispatchLoop rt env (if rest \<noteq> [] then pending env b1 else b1) rest
                 (if success then c + 1 else c)")
  from assms l t s d have "r2 = Inr n" "b3 = b'"
    "evs = Dispatch a success # (if rest \<noteq> [] then [Wait 1000] else []) @ evs2"
    by (auto simp add: Let_def split: if_splits)
  with t s d show thesis by (auto intro: that)
qed

lemma dispatchLoop_returns:
  "\<forall>a \<in> set actions. actionLabel a = Inr () \<Longrightarrow>
   \<exists>n b' evs. dispatchLoop rt env b actions c = (Inr n, b', evs)"
proof (induction actions arbitrary: b c)
  case Nil
  show ?case by simp
next
  case (Cons a rest)
  from Cons.prems have l: "actionLabel a = Inr ()" by simp
  from executeTask_returns [OF l] obtain success b1 where
    t: "executeTask rt env b a = (Inr success, b1)" by blast
  from Cons.prems have "\<forall>a \<in> set rest. actionLabel a = Inr ()" by simp
  from Cons.IH [OF this] obtain n b' evs where
    "dispatchLoop rt env (if rest \<noteq> [] then pending env b1 else b1) rest
       (if success then c + 1 else c) = (Inr n, b', evs)" by blast
  with l t show ?case by (simp add: Let_def)
qed

lemma dispatchLoop_calls:
  "dispatchLoop rt env b actions c = (Inr n, b', evs) \<Longrightarrow> map callOf evs = planCalls actions"
proof (induction actions arbitrary: b c evs)
  case Nil
  then show ?case by simp
next
  case (Cons a rest)
  from Cons.prems obtain success b1 evs2 where
    r: "dispatchLoop rt env (if rest \<noteq> [] then pending env b1 else b1) rest
          (if success then c + 1 else c) = (Inr n, b', evs2)"
    and e: "evs = Dispatch a success # (if rest \<noteq> [] then [Wait 1000] else []) @ evs2"
    by (rule dispatchLoop_round)
  from Cons.IH [OF r] have "map callOf evs2 = planCalls rest" .
  with e show ?case by (cases rest) simp_all
qed

lemma dispatchLoop_count:
  "dispatchLoop rt env b actions c = (Inr n, b', evs) \<Longrightarrow>
   n = c + length (filter succeeded evs)"
proof (induction actions arbitrary: b c evs)
  case Nil
  then show ?case by simp
next
  case (Cons a rest)
  from Cons.prems obtain success b1 evs2 where
    r: "dispatchLoop rt env (if rest \<noteq> [] then pending env b1 else b1) rest
          (if success then c + 1 else c) = (Inr n, b', evs2)"
    and e: "evs = Dispatch a success # (if rest \<noteq> [] then [Wait 1000] else []) @ evs2"
    by (rule dispatchLoop_round)
  from Cons.IH [OF r]
  have "n = (if success then c + 1 else c) + length (filter succeeded evs2)" .
  with e show ?case by simp
qed

lemma dispatchLoop_dispatched:
  "dispatchLoop rt env b actions c = (Inr n, b', evs) \<Longrightarrow> dispatched evs = actions"
proof (induction actions arbitrary: b c evs)
  case Nil
  then show ?case by simp
next
  case (Cons a rest)
  from Cons.prems obtain success b1 evs2 where
    r: "dispatchLoop rt env (if rest \<noteq> [] then pending env b1 else b1) rest
          (if success then c + 1 else c) = (Inr n, b', evs2)"
    and e: "evs = Dispatch a success # (if rest \<noteq> [] then [Wait 1000] else []) @ evs2"
    by (rule dispatchLoop_round)
  from Cons.IH [OF r] have "dispatched evs2 = rest" .
  with e show ?case by simp
qed

lemma some_succeeded_iff:
  "(0 < length (filter succeeded evs)) = (\<exists>action. Dispatch action True \<in> set evs)"
proof
  assume "0 < length (filter succeeded evs)"
  then obtain e where e: "e \<in> set evs" "succeeded e"
    by (metis filter_False length_greater_0_conv)
  from e(2) obtain action where "e = Dispatch action True"
    by (cases e) auto
  with e(1) show "\<exists>action. Dispatch action True \<in> set evs"
    by blast
next
  assume "\<exists>action. Dispatch action True \<in> set evs"
  then obtain action where "Dispatch action True \<in> set evs" ..
  then have "filter succeeded evs \<noteq> []"
    by (auto simp add: filter_empty_conv intro!: bexI [of _ "Dispatch action True"])
  then show "0 < length (filter succeeded evs)" by simp
qed

subsection \<open>A command that reaches the dispatch loop\<close>

lemma executeCommand_runs:
  assumes idle: "\<not> isExecuting this"
    and gs: "getGameState (executorBot this) = Some gameState"
    and ans: "llm userInput gameState = Inr parsedCommand"
    and acts: "getProp parsedCommand ''actions'' = Inr (JArr actions)"
    and ne: "actions \<noteq> []"
    and ok: "\<forall>a \<in> set actions. actionLabel a = Inr ()"
    and loop: "dispatchLoop rt env (pending env (executorBot this)) actions 0 = (Inr n, b, evs)"
  shows "executeCommand rt env llm this userInput =
           (Inr (0 < n),
            this\<lparr>executorBot := b,
                 executionHistory := executionHistory this
                   @ [\<lparr>input = userInput, tasks = JArr actions, successCount = n,
                        timestamp = isoTime env (clock b)\<rparr>]\<rparr>,
            evs)"
proof -
  from acts obtain kvs where pc: "parsedCommand = JObj kvs"
    by (cases parsedCommand) (auto split: if_splits)
  from acts pc have a: "getPropOpt parsedCommand ''actions'' = JArr actions"
    by (simp add: getPropOpt_def)
  from ok have chk: "checkActions actions = Inr ()" by (simp add: checkActions_iff)
  from ne have len: "getPropOpt (JArr actions) ''length'' \<noteq> JNum (Fin 0)"
    by (simp add: getPropOpt_def)
  show ?thesis
    using idle gs ans pc a chk len loop
    by (simp add: executeCommand_def executeCommandTry_def Let_def)
qed

text \<open>
  A plan whose first action has a name that cannot be converted to a string ends in
  the logging pass: the command returns \<open>false\<close>, nothing is dispatched, and the
  history stays as it was.
\<close>

lemma unprintable_name_ends_command:
  "executeCommand engine quiet (fixedLlm (Inr (planOf [unprintableAction, helloAction])))
     idleExecutor shout
   = (Inr False, idleExecutor\<lparr>executorBot := connectedBot\<lparr>clock := 1\<rparr>\<rparr>, [])"
  by (simp add: run_simps input_simps)

text \<open>Outside a command, \<open>executeTask\<close> throws on a task that is \<open>null\<close>.\<close>

lemma executeTask_null_throws:
  "fst (executeTask engine quiet connectedBot JNull) = Inl TypeError"
  by (simp add: run_simps input_simps)

subsection \<open>The history after the body of the try\<close>

lemma executeCommandTry_history:
  "executeCommandTry rt env llm this userInput = (r, this', evs) \<Longrightarrow>
     (executionHistory this' = executionHistory this \<and> evs = [] \<and> r \<noteq> Inr True)
     \<or> (\<exists>actions entry. r = Inr (0 < successCount entry)
          \<and> executionHistory this' = executionHistory this @ [entry]
          \<and> input entry = userInput \<and> tasks entry = JArr actions \<and> actions \<noteq> []
          \<and> successCount entry = length (filter succeeded evs)
          \<and> map callOf evs = planCalls actions)"
proof (cases "getGameState (executorBot this)")
  case None
  assume "executeCommandTry rt env llm this userInput = (r, this', evs)"
  with None show ?thesis by (auto simp add: executeCommandTry_def)
next
  case (Some gs)
  assume run: "executeCommandTry rt env llm this userInput = (r, this', evs)"
  show ?thesis
  proof (cases "llm userInput gs")
    case (Inl e)
    with Some run show ?thesis by (auto simp add: executeCommandTry_def Let_def)
  next
    case (Inr pc)
    show ?thesis
    proof (cases "truthy pc \<and> truthy (getPropOpt pc ''actions'')
                  \<and> getPropOpt (getPropOpt pc ''actions'') ''length'' \<noteq> JNum (Fin 0)")
      case False
      with Some Inr run show ?thesis
        by (auto simp add: executeCommandTry_def Let_def split: if_splits)
    next
      case True
      show ?thesis
      proof (cases "\<exists>actions. getPropOpt pc ''actions'' = JArr actions
                              \<and> checkActions actions = Inr ()")
        case False
        with Some Inr True run show ?thesis
          by (auto simp add: executeCommandTry_def Let_def split: jsval.splits sum.splits)
      next
        case yes: True
        then obtain actions where a: "getPropOpt pc ''actions'' = JArr actions"
          and c: "checkActions actions = Inr ()" by blast
        from True a have ne: "actions \<noteq> []" by (auto simp add: getPropOpt_def)
        from c have "\<forall>a \<in> set actions. actionLabel a = Inr ()"
          by (simp add: checkActions_iff)
        from dispatchLoop_returns [OF this] obtain n b evs' where loop:
          "dispatchLoop rt env (pending env (executorBot this)) actions 0 = (Inr n, b, evs')"
          by blast
        from dispatchLoop_count [OF loop] have n: "n = length (filter succeeded evs')" by simp
        from Some Inr True a c loop run n ne dispatchLoop_calls [OF loop] show ?thesis
          by (auto simp add: executeCommandTry_def Let_def)
      qed
    qed
  qed
qed

subsection \<open>The fallback parser on an instruction it does not recognise\<close>

lemma fallback_unrecognised:
  "unrecognised rt s \<Longrightarrow>
   createFallbackCommand rt (JStr s) =
     Inr (fallbackResult False apologyAction
            [25351, 31034, 12364, 19981, 26126, 30906, 12391, 12377] (JStr s))"
  by (simp add: unrecognised_def fallbackKeywords_def createFallbackCommand_def apologyAction_def
        Let_def)

lemma executeTask_apology:
  "fst (executeTask rt env b apologyAction) = Inr (isAlive b)"
  by (cases "mineflayerBot b")
     (auto simp add: executeTask_def executeTaskTry_def actionLabel_def apologyAction_def
        mkAction_def ustr_def
        getPropOpt_def jsOr_def executeChat_def nullish_def sendChat_def isAlive_def Let_def
        split: prod.splits sum.splits)

subsection \<open>Collecting with an amount that is not positive\<close>

lemma collectLoop_nonpositive:
  "r \<le> 0 \<Longrightarrow> collectLoop rt env b itemType (JNum (Fin r)) es 0 = (Inr 0, b)"
  by (induction es) (simp_all add: ToNumber_def numGreaterEq_def)

lemma collectItems_nonpositive:
  "r \<le> 0 \<Longrightarrow>
   collectItems rt env b itemType (JNum (Fin r)) = (Inr 0, b)
   \<or> collectItems rt env b itemType (JNum (Fin r)) = (Inl notConnected, b)"
  by (cases "mineflayerBot b") (simp_all add: collectItems_def collectLoop_nonpositive Let_def)

lemma collectItems_default:
  "collectItems rt env b itemType JUndefined = collectItems rt env b itemType (JNum (Fin 1))"
  by (simp add: collectItems_def)

subsection \<open>Relative moves\<close>


section \<open>The claims\<close>

text \<open>
  All statements are about one call of \<open>executeCommand\<close> run from start to end, as the
  console loop awaits it. What other code does to the bot while the call waits is the
  environment's \<open>drift\<close>; calls of the executor's own methods that interleave with the
  call are outside the model.
\<close>

subsection \<open>C1: a busy executor rejects the command\<close>

text \<open>
  C1. A call of \<open>executeCommand\<close> while \<open>isExecuting\<close> is true returns \<open>false\<close>, makes
  no call of \<open>executeTask\<close> and no wait, and leaves the executor as it was: no history
  entry, \<open>isExecuting\<close> and \<open>taskQueue\<close> unchanged, and the bot untouched.
\<close>

theorem busy_rejected:
  "isExecuting this \<Longrightarrow> executeCommand rt env llm this userInput = (Inr False, this, [])"
  by (simp add: executeCommand_def)

text \<open>Witness: the executor in flight, given the instruction of the scenario.\<close>

theorem busy_rejected_witness:
  "isExecuting busyExecutor
   \<and> executeCommand engine quiet (failingLlm engine) busyExecutor shout
       = (Inr False, busyExecutor, [])"
  using busy_rejected [where this = busyExecutor and rt = engine and env = quiet
                         and llm = "failingLlm engine" and userInput = shout]
  by (simp add: busyExecutor_def)

subsection \<open>C2: the command succeeds exactly when some action did\<close>

text \<open>
  C2. For a command that reaches the dispatch loop (the executor is idle, the bot gives
  a game state, the parser answers with a plan of \<open>n \<ge> 1\<close> actions, and the log lines
  about the plan go through: no action is \<open>undefined\<close> or \<open>null\<close>, and the name of
  every action can be converted to a string, as every string can),
  \<open>executeCommand\<close> returns \<open>true\<close> if and only if
  \<open>successCount > 0\<close>, where \<open>successCount\<close>, as the history entry records it, is the
  number of calls of \<open>executeTask\<close> that returned \<open>true\<close>: one success among \<open>n\<close>
  actions is an overall success.
\<close>

theorem success_iff_some_action_succeeded:
  assumes "\<not> isExecuting this"
    and "getGameState (executorBot this) = Some gameState"
    and "llm userInput gameState = Inr parsedCommand"
    and "getProp parsedCommand ''actions'' = Inr (JArr actions)"
    and "actions \<noteq> []"
    and "\<forall>a \<in> set actions. \<not> nullish a \<and> \<not> toPrimitiveThrows (getPropOpt a ''action'')"
  shows "case executeCommand rt env llm this userInput of
           (r, this', evs) \<Rightarrow>
             (\<exists>entry. executionHistory this' = executionHistory this @ [entry]
                \<and> r = Inr (0 < successCount entry)
                \<and> successCount entry = length (filter succeeded evs))
             \<and> r = Inr (\<exists>action. Dispatch action True \<in> set evs)"
proof -
  from assms(6) have ok: "\<forall>a \<in> set actions. actionLabel a = Inr ()"
    by (simp add: actionLabel_iff)
  from dispatchLoop_returns [OF ok] obtain n b evs where loop:
    "dispatchLoop rt env (pending env (executorBot this)) actions 0 = (Inr n, b, evs)"
    by blast
  note run = executeCommand_runs [where llm = llm and userInput = userInput,
      OF assms(1) assms(2) assms(3) assms(4) assms(5) ok loop]
  have "n = length (filter succeeded evs)"
    using dispatchLoop_count [OF loop] by simp
  then show ?thesis
    using some_succeeded_iff [of evs]
    by (simp add: run)
qed

text \<open>
  Witness: of the plan "place, then chat" the first action fails and the second
  succeeds, and the command succeeds with a \<open>successCount\<close> of 1; of the plan "place,
  then place" both fail, and the command fails.
\<close>

theorem success_iff_some_action_succeeded_witness:
  "\<not> isExecuting idleExecutor
   \<and> getGameState (executorBot idleExecutor) \<noteq> None
   \<and> list_all (\<lambda>a. \<not> nullish a \<and> \<not> toPrimitiveThrows (getPropOpt a ''action''))
        [placeAction, helloAction]
   \<and> fst (executeCommand engine quiet (fixedLlm (Inr (planOf [placeAction, helloAction])))
            idleExecutor shout) = Inr True
   \<and> map successCount
        (executionHistory
          (fst (snd (executeCommand engine quiet
                       (fixedLlm (Inr (planOf [placeAction, helloAction]))) idleExecutor shout))))
       = [1]
   \<and> fst (executeCommand engine quiet (fixedLlm (Inr (planOf [placeAction, placeAction])))
            idleExecutor shout) = Inr False"
  using success_iff_some_action_succeeded
          [where this = idleExecutor and llm = "fixedLlm (Inr (planOf [placeAction, helloAction]))"
             and userInput = shout and parsedCommand = "planOf [placeAction, helloAction]"
             and actions = "[placeAction, helloAction]" and rt = engine and env = quiet]
  by (simp add: run_simps input_simps)

subsection \<open>C3: every action is dispatched, in order, with waits in between\<close>

text \<open>
  C3. For a command that reaches the dispatch loop with a plan of \<open>n \<ge> 1\<close> actions
  (none \<open>undefined\<close> or \<open>null\<close>, each with a name that can be converted to a string,
  so that the log lines about the plan go through),
  \<open>executeCommand\<close> calls \<open>executeTask\<close> once for every action, in plan order and
  whatever the earlier calls returned, each call awaited before the next; it waits
  1000 ms between two consecutive calls and not after the last. (To dispatch an action
  is to call \<open>executeTask\<close> on it; the loop threads the bot from each call to the next.)
\<close>

theorem dispatch_in_plan_order:
  assumes "\<not> isExecuting this"
    and "getGameState (executorBot this) = Some gameState"
    and "llm userInput gameState = Inr parsedCommand"
    and "getProp parsedCommand ''actions'' = Inr (JArr actions)"
    and "actions \<noteq> []"
    and "\<forall>a \<in> set actions. \<not> nullish a \<and> \<not> toPrimitiveThrows (getPropOpt a ''action'')"
  shows "case executeCommand rt env llm this userInput of
           (r, this', evs) \<Rightarrow>
             map callOf evs = planCalls actions \<and> dispatched evs = actions"
proof -
  from assms(6) have ok: "\<forall>a \<in> set actions. actionLabel a = Inr ()"
    by (simp add: actionLabel_iff)
  from dispatchLoop_returns [OF ok] obtain n b evs where loop:
    "dispatchLoop rt env (pending env (executorBot this)) actions 0 = (Inr n, b, evs)"
    by blast
  note run = executeCommand_runs [where llm = llm and userInput = userInput,
      OF assms(1) assms(2) assms(3) assms(4) assms(5) ok loop]
  show ?thesis
    using dispatchLoop_calls [OF loop] dispatchLoop_dispatched [OF loop]
    by (simp add: run)
qed

text \<open>Witness: three actions, of which the first and the last fail.\<close>

theorem dispatch_in_plan_order_witness:
  "\<not> isExecuting idleExecutor
   \<and> getGameState (executorBot idleExecutor) \<noteq> None
   \<and> list_all (\<lambda>a. \<not> nullish a \<and> \<not> toPrimitiveThrows (getPropOpt a ''action''))
        [placeAction, helloAction, placeAction]
   \<and> snd (snd (executeCommand engine quiet
                  (fixedLlm (Inr (planOf [placeAction, helloAction, placeAction])))
                  idleExecutor shout))
       = [Dispatch placeAction False, Wait 1000, Dispatch helloAction True, Wait 1000,
          Dispatch placeAction False]"
  using dispatch_in_plan_order
          [where this = idleExecutor
             and llm = "fixedLlm (Inr (planOf [placeAction, helloAction, placeAction]))"
             and userInput = shout
             and parsedCommand = "planOf [placeAction, helloAction, placeAction]"
             and actions = "[placeAction, helloAction, placeAction]"
             and rt = engine and env = quiet]
  by (simp add: run_simps input_simps)

subsection \<open>C4: no exception leaves the command, and the flag is released\<close>

text \<open>
  C4, amended. \<open>executeCommand\<close> never throws: it returns a boolean on every path, and
  \<open>false\<close> when the body of its \<open>try\<close> threw. After a call that found the executor idle
  \<open>isExecuting\<close> is false, whichever way the call ended. A call that found the executor
  busy is rejected before the \<open>try\<close> and leaves the executor as it was, so \<open>isExecuting\<close>
  stays true: the flag belongs to the call in flight.
\<close>

theorem no_exception_flag_released:
  "(\<exists>v. fst (executeCommand rt env llm this userInput) = Inr v)
   \<and> (\<not> isExecuting this \<longrightarrow>
        \<not> isExecuting (fst (snd (executeCommand rt env llm this userInput))))
   \<and> (isExecuting this \<longrightarrow>
        fst (snd (executeCommand rt env llm this userInput)) = this)
   \<and> (\<forall>e. \<not> isExecuting this
          \<and> fst (executeCommandTry rt env llm (this\<lparr>isExecuting := True\<rparr>) userInput) = Inl e \<longrightarrow>
        fst (executeCommand rt env llm this userInput) = Inr False)"
  by (cases "executeCommandTry rt env llm (this\<lparr>isExecuting := True\<rparr>) userInput")
     (auto simp add: executeCommand_def split: sum.splits)

text \<open>
  Counterexample to C4 as stated: after the rejection of a command by the executor in
  flight, \<open>isExecuting\<close> is true.
\<close>

theorem busy_flag_counterexample:
  "isExecuting (fst (snd (executeCommand engine quiet (failingLlm engine) busyExecutor shout)))"
  by (simp add: executeCommand_def busyExecutor_def)

text \<open>
  Witness: a parser that throws makes the idle executor return \<open>false\<close> with the flag
  released; the executor in flight is left as it was.
\<close>

theorem no_exception_flag_released_witness:
  "\<not> isExecuting idleExecutor
   \<and> fst (executeCommandTry engine quiet (fixedLlm (Inl (Error [])))
            (idleExecutor\<lparr>isExecuting := True\<rparr>) shout) = Inl (Error [])
   \<and> fst (executeCommand engine quiet (fixedLlm (Inl (Error []))) idleExecutor shout) = Inr False
   \<and> \<not> isExecuting
        (fst (snd (executeCommand engine quiet (fixedLlm (Inl (Error []))) idleExecutor shout)))
   \<and> isExecuting busyExecutor
   \<and> fst (snd (executeCommand engine quiet (fixedLlm (Inl (Error []))) busyExecutor shout))
       = busyExecutor"
  using no_exception_flag_released
          [where rt = engine and env = quiet and llm = "fixedLlm (Inl (Error []))"
             and this = idleExecutor and userInput = shout]
        no_exception_flag_released
          [where rt = engine and env = quiet and llm = "fixedLlm (Inl (Error []))"
             and this = busyExecutor and userInput = shout]
  by (simp add: run_simps input_simps)

subsection \<open>C5: the fallback parser always answers with a plan\<close>

text \<open>
  C5. On every string, the empty one and garbage included, and with every engine,
  \<open>createFallbackCommand\<close> returns (it is a composition of total functions on lists)
  and does not throw: its result is an object whose \<open>actions\<close> is an array and whose
  \<open>reasoning\<close> is a string.
\<close>

theorem fallback_returns_plan:
  "\<exists>obj actions reasoning.
     createFallbackCommand rt (JStr s) = Inr obj
     \<and> getProp obj ''actions'' = Inr (JArr actions)
     \<and> getProp obj ''reasoning'' = Inr (JStr reasoning)"
  by (simp add: createFallbackCommand_def fallbackResult_def Let_def)

text \<open>Witness: the empty instruction.\<close>

theorem fallback_returns_plan_witness:
  "\<exists>obj actions reasoning.
     createFallbackCommand engine (JStr []) = Inr obj
     \<and> getProp obj ''actions'' = Inr (JArr actions)
     \<and> getProp obj ''reasoning'' = Inr (JStr reasoning)"
  using fallback_returns_plan [where rt = engine and s = "[]"] by simp

subsection \<open>C6: an instruction the fallback parser does not recognise\<close>

text \<open>
  C6, amended. For an instruction that contains none of the fallback parser's keywords
  (and with the remote call failing), the fallback's plan is marked \<open>success: false\<close>
  and holds exactly one action: a chat message that apologises. \<open>executeCommand\<close>
  dispatches that one action, and returns \<open>true\<close> exactly when the bot is alive when
  the action is dispatched.
\<close>

theorem unrecognised_instruction_apologises:
  assumes "unrecognised rt s"
  shows "(\<exists>obj. createFallbackCommand rt (JStr s) = Inr obj
            \<and> getProp obj ''actions'' = Inr (JArr [apologyAction])
            \<and> getProp obj ''success'' = Inr (JBool False))
         \<and> (\<forall>this gs. \<not> isExecuting this \<and> getGameState (executorBot this) = Some gs \<longrightarrow>
              fst (executeCommand rt env (failingLlm rt) this (JStr s))
                = Inr (isAlive (pending env (executorBot this)))
              \<and> snd (snd (executeCommand rt env (failingLlm rt) this (JStr s)))
                = [Dispatch apologyAction (isAlive (pending env (executorBot this)))])"
proof (intro conjI allI impI)
  show "\<exists>obj. createFallbackCommand rt (JStr s) = Inr obj
            \<and> getProp obj ''actions'' = Inr (JArr [apologyAction])
            \<and> getProp obj ''success'' = Inr (JBool False)"
    by (simp add: fallback_unrecognised [OF assms] fallbackResult_def)
next
  fix this :: TaskExecutor and gs
  assume pre: "\<not> isExecuting this \<and> getGameState (executorBot this) = Some gs"
  let ?b = "pending env (executorBot this)"
  let ?pc = "fallbackResult False apologyAction
               [25351, 31034, 12364, 19981, 26126, 30906, 12391, 12377] (JStr s)"
  have ans: "failingLlm rt (JStr s) gs = Inr ?pc"
    by (simp add: failingLlm_def parseCommand_def parseCommandTry_def
          fallback_unrecognised [OF assms])
  have acts: "getProp ?pc ''actions'' = Inr (JArr [apologyAction])"
    by (simp add: fallbackResult_def)
  have ok: "\<forall>a \<in> set [apologyAction]. actionLabel a = Inr ()"
    by (simp add: apologyAction_def mkAction_def actionLabel_def)
  obtain r b1 where t: "executeTask rt env ?b apologyAction = (r, b1)"
    by (cases "executeTask rt env ?b apologyAction")
  with executeTask_apology [of rt env ?b] have r: "r = Inr (isAlive ?b)" by simp
  define success where "success = isAlive ?b"
  have s: "success = isAlive ?b" by (simp add: success_def)
  have loop: "dispatchLoop rt env ?b [apologyAction] 0
     = (Inr (if success then 1 else 0), b1, [Dispatch apologyAction success])"
    using t r ok by (simp add: Let_def success_def)
  have idle: "\<not> isExecuting this" and state: "getGameState (executorBot this) = Some gs"
    using pre by simp_all
  have ne: "[apologyAction] \<noteq> []" by simp
  note run = executeCommand_runs [where llm = "failingLlm rt" and userInput = "JStr s",
      OF idle state ans acts ne ok loop]
  show "fst (executeCommand rt env (failingLlm rt) this (JStr s)) = Inr (isAlive ?b)"
    using run s by simp
  show "snd (snd (executeCommand rt env (failingLlm rt) this (JStr s)))
      = [Dispatch apologyAction (isAlive ?b)]"
    using run s by simp
qed

text \<open>
  Counterexample to C6 as stated: for the instruction of the scenario the fallback's
  plan holds one action, and the idle executor on a healthy bot dispatches it and
  returns \<open>true\<close>.
\<close>

theorem shout_counterexample:
  "createFallbackCommand engine shout
     = Inr (fallbackResult False apologyAction
              [25351, 31034, 12364, 19981, 26126, 30906, 12391, 12377] shout)
   \<and> fst (executeCommand engine quiet (failingLlm engine) idleExecutor shout) = Inr True
   \<and> snd (snd (executeCommand engine quiet (failingLlm engine) idleExecutor shout))
       = [Dispatch apologyAction True]"
  by (simp add: run_simps input_simps)

text \<open>
  Witness: the instruction "hello" on a connected bot without health: the apology is
  dispatched, fails, and the command returns \<open>false\<close>.
\<close>

theorem unrecognised_instruction_apologises_witness:
  "unrecognised engine (ustr ''hello'')
   \<and> \<not> isExecuting deadExecutor
   \<and> getGameState (executorBot deadExecutor) \<noteq> None
   \<and> fst (executeCommand engine quiet (failingLlm engine) deadExecutor (JStr (ustr ''hello'')))
       = Inr False
   \<and> snd (snd (executeCommand engine quiet (failingLlm engine) deadExecutor
                  (JStr (ustr ''hello''))))
       = [Dispatch apologyAction False]"
  using unrecognised_instruction_apologises
          [where rt = engine and s = "ustr ''hello''" and env = quiet]
  by (simp add: run_simps input_simps)

subsection \<open>C7: the amount of a collect action\<close>

text \<open>
  C7, amended. A collect action succeeds if and only if \<open>collectItems\<close> reports at
  least one item collected. An amount that is missing defaults to 1; of the language
  model's answer, \<open>convertTasksToActions\<close> also replaces an amount of 0 (any falsy
  amount) by 1. Any other amount is passed on as it is: with a number that is not
  positive, a negative one of the language model included, \<open>collectItems\<close> seeks no
  item, the bot is left as it was, and the action does not succeed.
\<close>

theorem collect_amount:
  "(\<not> nullish params \<longrightarrow>
      (fst (executeCollect rt env b params) = Inr True \<longleftrightarrow>
         (\<exists>n. fst (collectItems rt env b (getPropOpt params ''itemType'')
                     (getPropOpt params ''amount'')) = Inr n \<and> 0 < n)))
   \<and> (\<not> nullish params \<and> getPropOpt params ''amount'' = JUndefined \<longrightarrow>
        executeCollect rt env b params =
          (case collectItems rt env b (getPropOpt params ''itemType'') (JNum (Fin 1)) of
             (r, b') \<Rightarrow> (map_sum id (\<lambda>n. 0 < n) r, b')))
   \<and> (\<forall>r. \<not> nullish params \<and> getPropOpt params ''amount'' = JNum (Fin r) \<and> r \<le> 0 \<longrightarrow>
        fst (executeCollect rt env b params) \<noteq> Inr True
        \<and> snd (executeCollect rt env b params) = b)
   \<and> (\<forall>task. getProp task ''type'' = Inr (JStr (ustr ''collect'')) \<longrightarrow>
        convertTask rt task =
          Inr [mkAction ''collect''
                 (JObj [(''itemType'', getPropOpt task ''target''),
                        (''amount'',
                         if truthy (getPropOpt (getPropOpt task ''details'') ''amount'')
                         then getPropOpt (getPropOpt task ''details'') ''amount''
                         else JNum (Fin 1))])])"
proof (intro conjI allI impI)
  assume p: "\<not> nullish params"
  show "fst (executeCollect rt env b params) = Inr True \<longleftrightarrow>
      (\<exists>n. fst (collectItems rt env b (getPropOpt params ''itemType'')
                  (getPropOpt params ''amount'')) = Inr n \<and> 0 < n)"
    using p
    by (cases "getPropOpt params ''amount'' = JUndefined")
       (auto simp add: executeCollect_def Let_def collectItems_default
          split: prod.splits sum.splits)
next
  assume "\<not> nullish params \<and> getPropOpt params ''amount'' = JUndefined"
  then show "executeCollect rt env b params =
          (case collectItems rt env b (getPropOpt params ''itemType'') (JNum (Fin 1)) of
             (r, b') \<Rightarrow> (map_sum id (\<lambda>n. 0 < n) r, b'))"
    by (auto simp add: executeCollect_def Let_def split: prod.splits sum.splits)
next
  fix r
  assume a: "\<not> nullish params \<and> getPropOpt params ''amount'' = JNum (Fin r) \<and> r \<le> 0"
  from a collectItems_nonpositive [of r rt env b "getPropOpt params ''itemType''"]
  show "fst (executeCollect rt env b params) \<noteq> Inr True"
    by (auto simp add: executeCollect_def Let_def)
  from a collectItems_nonpositive [of r rt env b "getPropOpt params ''itemType''"]
  show "snd (executeCollect rt env b params) = b"
    by (auto simp add: executeCollect_def Let_def)
next
  fix task
  assume "getProp task ''type'' = Inr (JStr (ustr ''collect''))"
  then show "convertTask rt task =
          Inr [mkAction ''collect''
                 (JObj [(''itemType'', getPropOpt task ''target''),
                        (''amount'',
                         if truthy (getPropOpt (getPropOpt task ''details'') ''amount'')
                         then getPropOpt (getPropOpt task ''details'') ''amount''
                         else JNum (Fin 1))])]"
    by (simp add: convertTask_def Let_def jsOr_def ustr_def)
qed

text \<open>
  Counterexample to C7 as stated: the language model asks for -1 stones with a stone
  lying one block away. The action is dispatched with the amount -1, fails, and leaves
  the bot as it was (no goal was set: nothing was sought); with the amount 1 the same
  action succeeds.
\<close>

theorem negative_amount_counterexample:
  "convertTask engine (collectTask (JNum (Fin (- 1)))) = Inr [collectAction (JNum (Fin (- 1)))]
   \<and> executeTask engine quiet connectedBot (collectAction (JNum (Fin (- 1))))
       = (Inr False, connectedBot)
   \<and> fst (executeTask engine quiet connectedBot (collectAction (JNum (Fin 1)))) = Inr True"
  by (simp add: run_simps input_simps)

text \<open>
  Witness: without an amount one stone is sought and collected; with the amount 0
  nothing is; an amount of 0 in the language model's answer becomes 1.
\<close>

theorem collect_amount_witness:
  "\<not> nullish (JObj [(''itemType'', JStr (ustr ''stone''))])
   \<and> fst (executeCollect engine quiet connectedBot (JObj [(''itemType'', JStr (ustr ''stone''))]))
       = Inr True
   \<and> fst (collectItems engine quiet connectedBot (JStr (ustr ''stone'')) (JNum (Fin 1))) = Inr 1
   \<and> executeCollect engine quiet connectedBot
        (JObj [(''itemType'', JStr (ustr ''stone'')), (''amount'', JNum (Fin 0))])
       = (Inr False, connectedBot)
   \<and> convertTask engine (collectTask (JNum (Fin 0))) = Inr [collectAction (JNum (Fin 1))]"
  using collect_amount [where params = "JObj [(''itemType'', JStr (ustr ''stone''))]"
                          and rt = engine and env = quiet and b = connectedBot]
        collect_amount [where params = "JObj [(''itemType'', JStr (ustr ''stone'')),
                                              (''amount'', JNum (Fin 0))]"
                          and rt = engine and env = quiet and b = connectedBot]
  by (simp add: run_simps input_simps)

subsection \<open>C8: emergencyStop is idempotent\<close>

text \<open>
  C8. Calling \<open>emergencyStop\<close> twice in a row leaves the executor as calling it once
  does: \<open>isExecuting\<close> false, \<open>taskQueue\<close> empty, no goal pending in the pathfinder
  (and the history as it was). Called on an idle executor it changes nothing but the
  pathfinder's goal, which it clears.
\<close>

theorem emergencyStop_idempotent:
  "emergencyStop (emergencyStop this) = emergencyStop this
   \<and> isExecuting (emergencyStop this) = False
   \<and> taskQueue (emergencyStop this) = []
   \<and> pendingGoal (emergencyStop this) = None
   \<and> executionHistory (emergencyStop this) = executionHistory this
   \<and> (\<not> isExecuting this \<and> taskQueue this = [] \<longrightarrow>
        emergencyStop this = this\<lparr>executorBot := setGoal None (executorBot this)\<rparr>)"
  by (cases "mineflayerBot (executorBot this)")
     (auto simp add: emergencyStop_def setGoal_def pendingGoal_def Let_def)

text \<open>
  Witness: the executor in flight with a goal pending is stopped, and stopping it
  again changes nothing; the idle executor, which has no goal, is left as it was.
\<close>

theorem emergencyStop_idempotent_witness:
  "emergencyStop (emergencyStop walkingExecutor) = emergencyStop walkingExecutor
   \<and> pendingGoal walkingExecutor = Some (GoalBlock (Fin 13) (Fin 64) (Fin 20))
   \<and> pendingGoal (emergencyStop walkingExecutor) = None
   \<and> isExecuting walkingExecutor \<and> \<not> isExecuting (emergencyStop walkingExecutor)
   \<and> \<not> isExecuting idleExecutor \<and> taskQueue idleExecutor = []
   \<and> emergencyStop idleExecutor = idleExecutor"
  using emergencyStop_idempotent [where this = walkingExecutor]
        emergencyStop_idempotent [where this = idleExecutor]
  by (simp add: run_simps input_simps)

subsection \<open>C9: the target of a relative move\<close>



subsection \<open>C10: the history grows by one entry, after the loop\<close>

text \<open>
  C10. \<open>executionHistory\<close> is left as it was when \<open>executeCommand\<close> finds the executor
  busy, when the bot gives no game state, when the parsed plan has no actions, and when
  the body of the \<open>try\<close> throws. Every call either leaves the history as it was, makes
  no call of \<open>executeTask\<close> and returns \<open>false\<close>, or appends exactly one entry, after
  the dispatch loop has run over all the actions of the plan the entry records.
\<close>

theorem history_appended_once:
  "case executeCommand rt env llm this userInput of
     (r, this', evs) \<Rightarrow>
       (isExecuting this \<longrightarrow> executionHistory this' = executionHistory this)
       \<and> (getGameState (executorBot this) = None \<longrightarrow>
            executionHistory this' = executionHistory this)
       \<and> (\<forall>gs pc. getGameState (executorBot this) = Some gs \<and> llm userInput gs = Inr pc
              \<and> (\<not> truthy pc \<or> \<not> truthy (getPropOpt pc ''actions'')
                  \<or> getPropOpt (getPropOpt pc ''actions'') ''length'' = JNum (Fin 0)) \<longrightarrow>
            executionHistory this' = executionHistory this)
       \<and> (\<forall>e. fst (executeCommandTry rt env llm (this\<lparr>isExecuting := True\<rparr>) userInput)
                 = Inl e \<longrightarrow>
            executionHistory this' = executionHistory this)
       \<and> ((executionHistory this' = executionHistory this \<and> evs = [] \<and> r = Inr False)
          \<or> (\<exists>actions entry.
                executionHistory this' = executionHistory this @ [entry]
                \<and> input entry = userInput \<and> tasks entry = JArr actions \<and> actions \<noteq> []
                \<and> successCount entry = length (filter succeeded evs)
                \<and> map callOf evs = planCalls actions))"
proof (cases "isExecuting this")
  case True
  then show ?thesis by (simp add: executeCommand_def)
next
  case False
  obtain r0 this0 evs0 where run:
    "executeCommandTry rt env llm (this\<lparr>isExecuting := True\<rparr>) userInput = (r0, this0, evs0)"
    by (cases "executeCommandTry rt env llm (this\<lparr>isExecuting := True\<rparr>) userInput")
  have res: "executeCommand rt env llm this userInput =
      ((case r0 of Inl e \<Rightarrow> Inr False | Inr v \<Rightarrow> Inr v), this0\<lparr>isExecuting := False\<rparr>, evs0)"
    using False run by (simp add: executeCommand_def)
  have h: "(executionHistory this0 = executionHistory this \<and> evs0 = [] \<and> r0 \<noteq> Inr True)
     \<or> (\<exists>actions entry. r0 = Inr (0 < successCount entry)
          \<and> executionHistory this0 = executionHistory this @ [entry]
          \<and> input entry = userInput \<and> tasks entry = JArr actions \<and> actions \<noteq> []
          \<and> successCount entry = length (filter succeeded evs0)
          \<and> map callOf evs0 = planCalls actions)"
    using executeCommandTry_history [OF run] by simp
  have none: "getGameState (executorBot this) = None \<Longrightarrow>
      executionHistory this0 = executionHistory this"
    using run by (auto simp add: executeCommandTry_def)
  have zero: "\<And>gs pc. getGameState (executorBot this) = Some gs \<Longrightarrow>
      llm userInput gs = Inr pc \<Longrightarrow>
      \<not> truthy pc \<or> \<not> truthy (getPropOpt pc ''actions'')
         \<or> getPropOpt (getPropOpt pc ''actions'') ''length'' = JNum (Fin 0) \<Longrightarrow>
      executionHistory this0 = executionHistory this"
    using run by (auto simp add: executeCommandTry_def Let_def split: if_splits)
  have exc: "\<And>e. r0 = Inl e \<Longrightarrow> executionHistory this0 = executionHistory this"
    using h by auto
  have last: "(executionHistory this0 = executionHistory this \<and> evs0 = []
        \<and> (case r0 of Inl e \<Rightarrow> Inr False | Inr v \<Rightarrow> Inr v) = (Inr False :: error + bool))
     \<or> (\<exists>actions entry.
                executionHistory this0 = executionHistory this @ [entry]
                \<and> input entry = userInput \<and> tasks entry = JArr actions \<and> actions \<noteq> []
                \<and> successCount entry = length (filter succeeded evs0)
                \<and> map callOf evs0 = planCalls actions)"
    using h by (cases r0) auto
  show ?thesis
    using False none zero exc last by (auto simp add: res run)
qed

text \<open>
  Witness: the history stays empty for the executor in flight, for a bot without
  connection, for a plan without actions and for a parser that throws; a plan of two
  actions adds one entry.
\<close>

theorem history_appended_once_witness:
  "executionHistory
     (fst (snd (executeCommand engine quiet (failingLlm engine) busyExecutor shout))) = []
   \<and> executionHistory
       (fst (snd (executeCommand engine quiet (failingLlm engine) offlineExecutor shout))) = []
   \<and> executionHistory
       (fst (snd (executeCommand engine quiet (fixedLlm (Inr (planOf []))) idleExecutor shout)))
       = []
   \<and> executionHistory
       (fst (snd (executeCommand engine quiet (fixedLlm (Inl (Error []))) idleExecutor shout)))
       = []
   \<and> executionHistory
        (fst (snd (executeCommand engine quiet
                     (fixedLlm (Inr (planOf [placeAction, helloAction]))) idleExecutor shout)))
       = [\<lparr>input = shout, tasks = JArr [placeAction, helloAction], successCount = 1,
            timestamp = ustr ''2025-01-01T00:00:00.000Z''\<rparr>]"
  using history_appended_once [where rt = engine and env = quiet and llm = "failingLlm engine"
                                 and this = busyExecutor and userInput = shout]
        history_appended_once [where rt = engine and env = quiet and llm = "failingLlm engine"
                                 and this = offlineExecutor and userInput = shout]
        history_appended_once [where rt = engine and env = quiet
                                 and llm = "fixedLlm (Inr (planOf []))"
                                 and this = idleExecutor and userInput = shout]
        history_appended_once [where rt = engine and env = quiet
                                 and llm = "fixedLlm (Inl (Error []))"
                                 and this = idleExecutor and userInput = shout]
        history_appended_once [where rt = engine and env = quiet
                                 and llm = "fixedLlm (Inr (planOf [placeAction, helloAction]))"
                                 and this = idleExecutor and userInput = shout]
  by (simp add: run_simps input_simps)

end
